theory Spec2Isabelle
  imports Complex_Main "HOL-Library.Multiset"
begin

section \<open>Shared data of the three engines\<close>

text \<open>
  Python floats are modelled as exact reals, Python ints as \<open>int\<close> or \<open>nat\<close> (lengths and
  counters). A dict with a fixed set of keys is a record; a key that may be absent is an
  \<open>option\<close> field, read with the default the source passes to \<open>.get\<close>.
  \<open>geopy.distance.geodesic\<close> is an external library: it is a parameter \<open>geodesic\<close> that
  gives the distance in kilometres of two (lat, lng) pairs, for coordinates in range.
\<close>

datatype py_exception = KeyError | ValueError | TypeError | IndexError | GatewayError

type_synonym latlng = "real \<times> real"

type_synonym geodesic_fn = "latlng \<Rightarrow> latlng \<Rightarrow> real"

text \<open>\<open>d.get(k, default)\<close> on a dict modelled as a map.\<close>

definition dict_get :: "('k \<rightharpoonup> 'v) \<Rightarrow> 'k \<Rightarrow> 'v \<Rightarrow> 'v" where
  "dict_get d k dflt = (case d k of None \<Rightarrow> dflt | Some v \<Rightarrow> v)"

text \<open>\<open>x.get(k, default)\<close> on an optional field.\<close>

definition field_get :: "'v option \<Rightarrow> 'v \<Rightarrow> 'v" where
  "field_get f dflt = (case f of None \<Rightarrow> dflt | Some v \<Rightarrow> v)"

text \<open>
  \<open>round(x, 2)\<close>: Python rounds to the nearest multiple of 0.01, a tie going to the even
  neighbour. \<open>py_round\<close> is \<open>round(x)\<close>.
\<close>

definition py_round :: "real \<Rightarrow> int" where
  "py_round x =
     (let f = \<lfloor>x\<rfloor>; d = x - of_int f
      in if d < 1/2 then f else if 1/2 < d then f + 1 else if even f then f else f + 1)"

definition py_round2 :: "real \<Rightarrow> real" where
  "py_round2 x = of_int (py_round (x * 100)) / 100"

text \<open>\<open>np.mean\<close> of a non-empty list (every call site guards the empty list).\<close>

definition np_mean :: "real list \<Rightarrow> real" where
  "np_mean xs = sum_list xs / real (length xs)"

text \<open>The values of \<open>config.py\<close> that the engines read; each can be overridden at start-up.\<close>

record config =
  RISK_PREDICTION_RADIUS :: real
  MOVEMENT_SPEED_THRESHOLD :: real
  HOTSPOT_RADIUS :: real
  MIN_INCIDENTS_FOR_HOTSPOT :: int

definition default_config :: config where
  "default_config = \<lparr> RISK_PREDICTION_RADIUS = 1.0, MOVEMENT_SPEED_THRESHOLD = 100,
     HOTSPOT_RADIUS = 0.5, MIN_INCIDENTS_FOR_HOTSPOT = 5 \<rparr>"

subsection \<open>Time stamps\<close>

text \<open>
  A \<open>datetime\<close>: the wall-clock reading in seconds since the epoch, and the UTC offset in
  seconds of an aware value (\<open>None\<close> for a naive one). \<open>datetime.fromisoformat\<close> gives an
  aware value for a string that ends in \<open>Z\<close> or in an offset, a naive one otherwise.
\<close>

record datetime =
  dt_wall :: int
  dt_utcoffset :: "int option"

text \<open>\<open>t.hour\<close>: the hour of the wall-clock reading.\<close>

definition dt_hour :: "datetime \<Rightarrow> int" where
  "dt_hour t = (dt_wall t div 3600) mod 24"

text \<open>\<open>(a - b).total_seconds()\<close>; a naive and an aware value do not subtract (TypeError).\<close>

definition dt_diff :: "datetime \<Rightarrow> datetime \<Rightarrow> py_exception + real" where
  "dt_diff a b =
     (case dt_utcoffset a of
        None \<Rightarrow> (case dt_utcoffset b of
                   None \<Rightarrow> Inr (real_of_int (dt_wall a - dt_wall b))
                 | Some ob \<Rightarrow> Inl TypeError)
      | Some oa \<Rightarrow> (case dt_utcoffset b of
                   None \<Rightarrow> Inl TypeError
                 | Some ob \<Rightarrow> Inr (real_of_int ((dt_wall a - oa) - (dt_wall b - ob)))))"

text \<open>
  A time stamp as a record of the data store carries it: a datetime object, which the
  driver returns naive (\<open>Instant\<close>, the seconds since the epoch), or a string
  (\<open>Iso_text\<close>), given by the outcome of
  \<open>datetime.fromisoformat(s.replace('Z', '+00:00'))\<close>: an exception, a naive value, or an
  aware one when the string ends in \<open>Z\<close> or in an offset.
\<close>

datatype time_value = Instant int | Iso_text "py_exception + datetime"

text \<open>
  Records of the data store. \<open>coordinates\<close> is the GeoJSON pair [lng, lat]; \<open>None\<close> stands for
  a record without \<open>location.coordinates\<close>, and for a record without the time stamp.
\<close>

record incident =
  inc_coordinates :: "(real \<times> real) option"
  inc_type :: "string option"
  inc_severity :: "string option"
  inc_createdAt :: "time_value option"

record panic_alert =
  pa_coordinates :: "(real \<times> real) option"
  pa_timestamp :: "time_value option"

section \<open>Risk engine (ml_models/risk_predictor.py)\<close>

record geo_point =
  lat :: real
  lng :: real

record route =
  start_point :: geo_point
  end_point :: geo_point
  waypoints :: "geo_point list option"

text \<open>
  The two read operations of the gateway that the risk engine calls, with the arguments it
  passes: centre latitude and longitude, radius in km and start date. A gateway may raise.
\<close>

record risk_gateway =
  get_incidents_in_area :: "real \<Rightarrow> real \<Rightarrow> real \<Rightarrow> int \<Rightarrow> py_exception + incident list"
  get_panic_alerts_in_area :: "real \<Rightarrow> real \<Rightarrow> real \<Rightarrow> int \<Rightarrow> py_exception + panic_alert list"

definition incident_weights :: "string \<rightharpoonup> real" where
  "incident_weights = [''crime'' \<mapsto> 3.0, ''accident'' \<mapsto> 2.0, ''medical'' \<mapsto> 1.5,
     ''fire'' \<mapsto> 2.5, ''other'' \<mapsto> 1.0]"

definition severity_multipliers :: "string \<rightharpoonup> real" where
  "severity_multipliers = [''low'' \<mapsto> 0.5, ''medium'' \<mapsto> 1.0, ''high'' \<mapsto> 1.5,
     ''critical'' \<mapsto> 2.0]"

text \<open>One pass of the loop over \<open>incidents\<close> in \<open>_calculate_point_risk\<close>.\<close>

definition add_incident :: "real \<Rightarrow> incident \<Rightarrow> real" where
  "add_incident incident_score incident =
     (let incident_type = field_get (inc_type incident) ''other'';
          severity = field_get (inc_severity incident) ''medium'';
          weight = dict_get incident_weights incident_type 1.0;
          severity_multiplier = dict_get severity_multipliers severity 1.0
      in incident_score + weight * severity_multiplier)"

text \<open>
  \<open>_calculate_point_risk\<close>. Nothing in its body raises on records of these types, so its
  handler (which returns 20.0) has no branch here.
\<close>

definition calculate_point_risk :: "incident list \<Rightarrow> panic_alert list \<Rightarrow> real" where
  "calculate_point_risk incidents panic_alerts =
     (let incident_score = foldl add_incident 0 incidents;
          panic_score = real (length panic_alerts) * 2.0;
          total_score = incident_score + panic_score;
          normalized_score = min 80 ((total_score / 10) * 80)
      in max 5 normalized_score)"

definition seconds_per_day :: int where
  "seconds_per_day = 86400"

text \<open>
  The loop of \<open>_calculate_historical_risk\<close> over \<open>all_points\<close>, with the accumulators
  \<open>total_risk\<close> and \<open>point_count\<close>; \<open>now\<close> is the reading of \<open>datetime.utcnow()\<close>. An exception
  of the gateway leaves the loop.
\<close>

fun historical_loop ::
  "risk_gateway \<Rightarrow> config \<Rightarrow> int \<Rightarrow> geo_point list \<Rightarrow> real \<times> nat \<Rightarrow> py_exception + (real \<times> nat)" where
  "historical_loop db cfg now [] acc = Inr acc"
| "historical_loop db cfg now (point # rest) (total_risk, point_count) =
     (case get_incidents_in_area db (lat point) (lng point) (RISK_PREDICTION_RADIUS cfg)
             (now - 365 * seconds_per_day) of
        Inl e \<Rightarrow> Inl e
      | Inr incidents \<Rightarrow>
          (case get_panic_alerts_in_area db (lat point) (lng point) (RISK_PREDICTION_RADIUS cfg)
                  (now - 365 * seconds_per_day) of
             Inl e \<Rightarrow> Inl e
           | Inr panic_alerts \<Rightarrow>
               historical_loop db cfg now rest
                 (total_risk + calculate_point_risk incidents panic_alerts, point_count + 1)))"

definition calculate_historical_risk ::
  "risk_gateway \<Rightarrow> config \<Rightarrow> int \<Rightarrow> geo_point \<Rightarrow> geo_point \<Rightarrow> geo_point list \<Rightarrow> real" where
  "calculate_historical_risk db cfg now start_pt end_pt wps =
     (case historical_loop db cfg now ([start_pt] @ wps @ [end_pt]) (0, 0) of
        Inl e \<Rightarrow> 20.0
      | Inr (total_risk, point_count) \<Rightarrow>
          (let avg_risk = (if point_count > 0 then total_risk / real point_count else 20)
           in min 80 avg_risk))"

definition time_modifiers :: "string \<rightharpoonup> real" where
  "time_modifiers = [''morning'' \<mapsto> 0.8, ''afternoon'' \<mapsto> 0.9, ''evening'' \<mapsto> 1.1,
     ''night'' \<mapsto> 1.3, ''late_night'' \<mapsto> 1.5]"

definition get_time_risk_modifier :: "string \<Rightarrow> real" where
  "get_time_risk_modifier time_of_day = dict_get time_modifiers time_of_day 1.0"

text \<open>
  \<open>_get_route_characteristics_modifier\<close>; \<open>geodesic\<close> gives kilometres. Its handler
  (which returns 1.0) has no branch: nothing raises on a route record.
\<close>

definition get_route_characteristics_modifier :: "geodesic_fn \<Rightarrow> route \<Rightarrow> real" where
  "get_route_characteristics_modifier geodesic r =
     (let start = start_point r; en = end_point r;
          distance = geodesic (lat start, lng start) (lat en, lng en);
          distance_modifier = 1.0 + (distance / 100) * 0.1;
          waypoint_count = length (field_get (waypoints r) []);
          waypoint_modifier = 1.0 + (real waypoint_count * 0.05)
      in min 1.5 (distance_modifier * waypoint_modifier))"

text \<open>The record handed to \<open>store_risk_prediction\<close>.\<close>

record prediction =
  pr_route :: route
  pr_time_of_day :: string
  pr_user_id :: "string option"
  pr_risk_score :: real
  pr_base_risk :: real
  pr_time_modifier :: real
  pr_route_modifier :: real

text \<open>
  \<open>predict_route_risk\<close> returns the rounded score; the second component is the record it
  hands to the gateway before returning (\<open>_store_prediction\<close> swallows whatever the gateway
  raises, so the write never changes the returned score). On a route record no operation
  of the body raises outside the handlers of the functions it calls, so the outer handler
  (which returns 30.0) has no branch.
\<close>

definition predict_route_risk ::
  "risk_gateway \<Rightarrow> geodesic_fn \<Rightarrow> config \<Rightarrow> int \<Rightarrow> route \<Rightarrow> string \<Rightarrow> string option
     \<Rightarrow> real \<times> prediction" where
  "predict_route_risk db geodesic cfg now r time_of_day user_id =
     (let wps = field_get (waypoints r) [];
          base_risk = calculate_historical_risk db cfg now (start_point r) (end_point r) wps;
          time_modifier = get_time_risk_modifier time_of_day;
          route_modifier = get_route_characteristics_modifier geodesic r;
          risk_score = min 100 (base_risk * time_modifier * route_modifier)
      in (py_round2 risk_score,
          \<lparr> pr_route = r, pr_time_of_day = time_of_day, pr_user_id = user_id,
            pr_risk_score = risk_score, pr_base_risk = base_risk,
            pr_time_modifier = time_modifier, pr_route_modifier = route_modifier \<rparr>))"

section \<open>Pattern engine (ml_models/pattern_analyzer.py)\<close>

text \<open>
  The dicts that \<open>_identify_hotspots\<close> appends to \<open>all_points\<close>. The time stamp is the value
  of the record, a datetime or a string, as it is.
\<close>

record hot_point =
  hp_lat :: real
  hp_lng :: real
  hp_type :: string
  hp_subtype :: string
  hp_severity :: string
  hp_timestamp :: time_value

record cluster =
  cl_center :: geo_point
  cl_points :: "hot_point list"
  cl_incident_count :: int

definition new_cluster :: "hot_point \<Rightarrow> cluster" where
  "new_cluster seed_point =
     \<lparr> cl_center = \<lparr> lat = hp_lat seed_point, lng = hp_lng seed_point \<rparr>,
       cl_points = [seed_point], cl_incident_count = 1 \<rparr>"

text \<open>
  The \<open>for i, point in enumerate(unclustered_points)\<close> loop of \<open>_cluster_points\<close>: it
  appends the points within the radius of the seed to the cluster and their indices to
  \<open>points_to_remove\<close>.
\<close>

fun find_nearby ::
  "geodesic_fn \<Rightarrow> real \<Rightarrow> hot_point \<Rightarrow> (nat \<times> hot_point) list \<Rightarrow> cluster \<times> nat list
     \<Rightarrow> cluster \<times> nat list" where
  "find_nearby geodesic radius_km seed_point [] acc = acc"
| "find_nearby geodesic radius_km seed_point ((i, point) # rest) (cluster, points_to_remove) =
     (let distance = geodesic (hp_lat seed_point, hp_lng seed_point) (hp_lat point, hp_lng point)
      in if distance \<le> radius_km
         then find_nearby geodesic radius_km seed_point rest
                (cluster \<lparr> cl_points := cl_points cluster @ [point],
                           cl_incident_count := cl_incident_count cluster + 1 \<rparr>,
                 points_to_remove @ [i])
         else find_nearby geodesic radius_km seed_point rest (cluster, points_to_remove))"

text \<open>
  \<open>xs.pop(i)\<close> for an index in range, the popped element dropped; the indices that
  \<open>_cluster_points\<close> pops come from \<open>enumerate\<close> and are popped last first, so they are in
  range.
\<close>

definition list_pop :: "nat \<Rightarrow> 'a list \<Rightarrow> 'a list" where
  "list_pop i xs = take i xs @ drop (Suc i) xs"

text \<open>\<open>for i in reversed(points_to_remove): unclustered_points.pop(i)\<close>\<close>

definition remove_clustered :: "nat list \<Rightarrow> 'a list \<Rightarrow> 'a list" where
  "remove_clustered points_to_remove unclustered_points =
     foldl (\<lambda>xs i. list_pop i xs) unclustered_points (rev points_to_remove)"

definition update_center :: "cluster \<Rightarrow> cluster" where
  "update_center cluster =
     (if length (cl_points cluster) > 1
      then cluster \<lparr> cl_center := \<lparr> lat = np_mean (map hp_lat (cl_points cluster)),
                                    lng = np_mean (map hp_lng (cl_points cluster)) \<rparr> \<rparr>
      else cluster)"

text \<open>
  The \<open>while unclustered_points\<close> loop of \<open>_cluster_points\<close>, with the list of clusters
  built so far; \<open>min_incidents\<close> is \<open>config.MIN_INCIDENTS_FOR_HOTSPOT\<close>.
\<close>

function cluster_loop ::
  "geodesic_fn \<Rightarrow> real \<Rightarrow> int \<Rightarrow> hot_point list \<Rightarrow> cluster list \<Rightarrow> cluster list" where
  "cluster_loop geodesic radius_km min_incidents [] clusters = clusters"
| "cluster_loop geodesic radius_km min_incidents (seed_point # unclustered_points) clusters =
     (let found = find_nearby geodesic radius_km seed_point (enumerate 0 unclustered_points)
                    (new_cluster seed_point, []);
          remaining = remove_clustered (snd found) unclustered_points;
          cluster = update_center (fst found)
      in cluster_loop geodesic radius_km min_incidents remaining
           (if cl_incident_count cluster \<ge> min_incidents then clusters @ [cluster] else clusters))"
  by pat_completeness auto

lemma length_list_pop: "length (list_pop i xs) \<le> length xs"
  by (simp add: list_pop_def)

lemma length_remove_clustered: "length (remove_clustered is xs) \<le> length xs"
proof -
  have "length (foldl (\<lambda>xs i. list_pop i xs) xs js) \<le> length xs" for js
  proof (induction js arbitrary: xs)
    case Nil
    then show ?case by simp
  next
    case (Cons j js)
    have "length (foldl (\<lambda>xs i. list_pop i xs) (list_pop j xs) js) \<le> length (list_pop j xs)"
      by (rule Cons.IH)
    also have "\<dots> \<le> length xs" by (rule length_list_pop)
    finally show ?case by simp
  qed
  then show ?thesis by (simp add: remove_clustered_def)
qed

termination cluster_loop
proof (relation "measure (\<lambda>(geodesic, radius_km, min_incidents, unclustered, clusters). length unclustered)")
  show "wf (measure (\<lambda>(geodesic, radius_km, min_incidents, unclustered, clusters). length unclustered))"
    by simp
next
  fix geodesic :: geodesic_fn and radius_km :: real and min_incidents :: int
    and seed_point :: hot_point and unclustered_points :: "hot_point list"
    and clusters :: "cluster list" and found remaining cluster
  assume "remaining = remove_clustered (snd found) unclustered_points"
  then have "length remaining \<le> length unclustered_points"
    by (simp add: length_remove_clustered)
  then show "((geodesic, radius_km, min_incidents, remaining,
        if min_incidents \<le> cl_incident_count cluster then clusters @ [cluster] else clusters),
       geodesic, radius_km, min_incidents, seed_point # unclustered_points, clusters)
      \<in> measure (\<lambda>(geodesic, radius_km, min_incidents, unclustered, clusters). length unclustered)"
    by simp
qed

definition cluster_points :: "geodesic_fn \<Rightarrow> config \<Rightarrow> hot_point list \<Rightarrow> real \<Rightarrow> cluster list" where
  "cluster_points geodesic cfg points radius_km =
     cluster_loop geodesic radius_km (MIN_INCIDENTS_FOR_HOTSPOT cfg) points []"

subsection \<open>Hotspots\<close>

definition severity_weights :: "string \<rightharpoonup> int" where
  "severity_weights = [''low'' \<mapsto> 1, ''medium'' \<mapsto> 2, ''high'' \<mapsto> 3, ''critical'' \<mapsto> 4]"

definition type_weights :: "string \<rightharpoonup> int" where
  "type_weights = [''panic_alert'' \<mapsto> 3, ''crime'' \<mapsto> 3, ''accident'' \<mapsto> 2, ''medical'' \<mapsto> 2,
     ''fire'' \<mapsto> 2, ''other'' \<mapsto> 1]"

text \<open>One pass of the first loop of \<open>_rank_hotspots\<close> over the points of a cluster.\<close>

definition add_point_score :: "int \<Rightarrow> hot_point \<Rightarrow> int" where
  "add_point_score risk_score point =
     (let severity_weight = dict_get severity_weights (hp_severity point) 2;
          type_weight = dict_get type_weights (hp_subtype point) 1
      in risk_score + severity_weight * type_weight)"

text \<open>
  The step \<open>if isinstance(timestamp, str): timestamp = datetime.fromisoformat(...)\<close> of
  \<open>_rank_hotspots\<close> and \<open>_is_recent\<close>: a string is parsed, which may raise; a datetime is
  taken as it is.
\<close>

definition parse_timestamp :: "time_value \<Rightarrow> py_exception + datetime" where
  "parse_timestamp v =
     (case v of
        Instant t \<Rightarrow> Inr \<lparr> dt_wall = t, dt_utcoffset = None \<rparr>
      | Iso_text outcome \<Rightarrow> outcome)"

text \<open>
  One pass of the second loop of \<open>_rank_hotspots\<close>. \<open>now\<close> is the naive
  \<open>datetime.utcnow()\<close>, so \<open>now - timestamp\<close> raises TypeError on an aware time stamp;
  \<open>.days\<close> rounds towards minus infinity.
\<close>

definition time_weight :: "int \<Rightarrow> hot_point \<Rightarrow> py_exception + real" where
  "time_weight now point =
     (case parse_timestamp (hp_timestamp point) of
        Inl e \<Rightarrow> Inl e
      | Inr timestamp \<Rightarrow>
          (case dt_diff \<lparr> dt_wall = now, dt_utcoffset = None \<rparr> timestamp of
             Inl e \<Rightarrow> Inl e
           | Inr seconds \<Rightarrow>
               (let days_old = \<lfloor>seconds / real_of_int seconds_per_day\<rfloor>
                in Inr (max 0.1 (1.0 - (real_of_int days_old / 30))))))"

fun time_weights_loop :: "int \<Rightarrow> hot_point list \<Rightarrow> real list \<Rightarrow> py_exception + real list" where
  "time_weights_loop now [] time_weights = Inr time_weights"
| "time_weights_loop now (point # rest) time_weights =
     (case time_weight now point of
        Inl e \<Rightarrow> Inl e
      | Inr w \<Rightarrow> time_weights_loop now rest (time_weights @ [w]))"

definition final_score :: "int \<Rightarrow> cluster \<Rightarrow> py_exception + real" where
  "final_score now cluster =
     (let risk_score = foldl add_point_score 0 (cl_points cluster)
      in case time_weights_loop now (cl_points cluster) [] of
           Inl e \<Rightarrow> Inl e
         | Inr time_weights \<Rightarrow>
             (let avg_time_weight = (if time_weights \<noteq> [] then np_mean time_weights else 1.0)
              in Inr (real_of_int risk_score * avg_time_weight)))"

text \<open>\<open>PatternAnalyzer._get_risk_level\<close>\<close>

definition pattern_risk_level :: "real \<Rightarrow> string" where
  "pattern_risk_level score =
     (if score < 10 then ''low'' else if score < 20 then ''moderate''
      else if score < 35 then ''high'' else ''critical'')"

text \<open>
  \<open>_is_recent(timestamp, days)\<close>; the cutoff is naive, so the comparison raises TypeError on
  an aware time stamp.
\<close>

definition is_recent :: "int \<Rightarrow> time_value \<Rightarrow> int \<Rightarrow> py_exception + bool" where
  "is_recent now v days =
     (case parse_timestamp v of
        Inl e \<Rightarrow> Inl e
      | Inr timestamp \<Rightarrow>
          (let cutoff = now - days * seconds_per_day
           in case dt_utcoffset timestamp of
                None \<Rightarrow> Inr (dt_wall timestamp \<ge> cutoff)
              | Some off \<Rightarrow> Inl TypeError))"

text \<open>The list comprehension \<open>[p for p in cluster['points'] if self._is_recent(...)]\<close>.\<close>

fun recent_points :: "int \<Rightarrow> hot_point list \<Rightarrow> py_exception + hot_point list" where
  "recent_points now [] = Inr []"
| "recent_points now (p # rest) =
     (case is_recent now (hp_timestamp p) 7 of
        Inl e \<Rightarrow> Inl e
      | Inr recent \<Rightarrow>
          (case recent_points now rest of
             Inl e \<Rightarrow> Inl e
           | Inr ps \<Rightarrow> Inr (if recent then p # ps else ps)))"

text \<open>
  \<open>incident_breakdown[subtype] += 1\<close> on a \<open>defaultdict(int)\<close>: an association list in
  insertion order, which is the order of \<open>items()\<close>.
\<close>

fun count_subtype :: "string \<Rightarrow> (string \<times> int) list \<Rightarrow> (string \<times> int) list" where
  "count_subtype k [] = [(k, 1)]"
| "count_subtype k ((k', n) # rest) =
     (if k = k' then (k', n + 1) # rest else (k', n) # count_subtype k rest)"

text \<open>\<open>max(items, key=...)\<close>: the first item with the greatest key; ValueError on no item.\<close>

fun py_max_by :: "('a \<Rightarrow> 'k::linorder) \<Rightarrow> 'a list \<Rightarrow> py_exception + 'a" where
  "py_max_by key [] = Inl ValueError"
| "py_max_by key (x # xs) = Inr (foldl (\<lambda>best y. if key best < key y then y else best) x xs)"

record hotspot =
  hs_center :: geo_point
  hs_incident_count :: int
  hs_risk_score :: real
  hs_risk_level :: string
  hs_radius_km :: real
  hs_incident_breakdown :: "(string \<times> int) list"
  hs_most_common_type :: string
  hs_recent_incidents :: nat

text \<open>
  The body of the loop of \<open>_rank_hotspots\<close>: the hotspot of one cluster, or the first
  exception on the way (a time stamp in the loop of the time weights, no item for
  \<open>max\<close>, a time stamp in \<open>_is_recent\<close>).
\<close>

definition hotspot_of :: "int \<Rightarrow> config \<Rightarrow> cluster \<Rightarrow> py_exception + hotspot" where
  "hotspot_of now cfg cluster =
     (case final_score now cluster of
        Inl e \<Rightarrow> Inl e
      | Inr score \<Rightarrow>
          (let incident_breakdown =
                 foldl (\<lambda>d point. count_subtype (hp_subtype point) d) [] (cl_points cluster)
           in case py_max_by snd incident_breakdown of
                Inl e \<Rightarrow> Inl e
              | Inr most_common \<Rightarrow>
                  (case recent_points now (cl_points cluster) of
                     Inl e \<Rightarrow> Inl e
                   | Inr recent \<Rightarrow>
                       Inr \<lparr> hs_center = cl_center cluster,
                             hs_incident_count = cl_incident_count cluster,
                             hs_risk_score = py_round2 score,
                             hs_risk_level = pattern_risk_level score,
                             hs_radius_km = HOTSPOT_RADIUS cfg,
                             hs_incident_breakdown = incident_breakdown,
                             hs_most_common_type = fst most_common,
                             hs_recent_incidents = length recent \<rparr>)))"

fun rank_loop :: "int \<Rightarrow> config \<Rightarrow> cluster list \<Rightarrow> hotspot list \<Rightarrow> py_exception + hotspot list" where
  "rank_loop now cfg [] ranked = Inr ranked"
| "rank_loop now cfg (cluster # rest) ranked =
     (case hotspot_of now cfg cluster of
        Inl e \<Rightarrow> Inl e
      | Inr hotspot \<Rightarrow> rank_loop now cfg rest (ranked @ [hotspot]))"

text \<open>
  \<open>ranked.sort(key=lambda x: x['risk_score'], reverse=True)\<close> is a stable sort in
  descending order: hotspots of equal score keep their order.
\<close>

definition rank_hotspots :: "int \<Rightarrow> config \<Rightarrow> cluster list \<Rightarrow> py_exception + hotspot list" where
  "rank_hotspots now cfg clusters =
     (case rank_loop now cfg clusters [] of
        Inl e \<Rightarrow> Inl e
      | Inr ranked \<Rightarrow> Inr (sort_key (\<lambda>h. - hs_risk_score h) ranked))"

fun incident_points :: "int \<Rightarrow> incident list \<Rightarrow> hot_point list" where
  "incident_points now [] = []"
| "incident_points now (incident # rest) =
     (case inc_coordinates incident of
        None \<Rightarrow> incident_points now rest
      | Some coords \<Rightarrow>
          \<lparr> hp_lat = snd coords, hp_lng = fst coords, hp_type = ''incident'',
            hp_subtype = field_get (inc_type incident) ''unknown'',
            hp_severity = field_get (inc_severity incident) ''medium'',
            hp_timestamp = field_get (inc_createdAt incident) (Instant now) \<rparr> # incident_points now rest)"

fun alert_points :: "int \<Rightarrow> panic_alert list \<Rightarrow> hot_point list" where
  "alert_points now [] = []"
| "alert_points now (alert # rest) =
     (case pa_coordinates alert of
        None \<Rightarrow> alert_points now rest
      | Some coords \<Rightarrow>
          \<lparr> hp_lat = snd coords, hp_lng = fst coords, hp_type = ''panic_alert'',
            hp_subtype = ''emergency'', hp_severity = ''high'',
            hp_timestamp = field_get (pa_timestamp alert) (Instant now) \<rparr> # alert_points now rest)"

text \<open>
  \<open>_identify_hotspots\<close>; \<open>now\<close> is the reading of \<open>datetime.utcnow()\<close>, and the handler turns
  an exception of \<open>_rank_hotspots\<close> into the empty list.
\<close>

definition identify_hotspots ::
  "int \<Rightarrow> geodesic_fn \<Rightarrow> config \<Rightarrow> incident list \<Rightarrow> panic_alert list \<Rightarrow> hotspot list" where
  "identify_hotspots now geodesic cfg incidents panic_alerts =
     (let all_points = incident_points now incidents @ alert_points now panic_alerts
      in if int (length all_points) < MIN_INCIDENTS_FOR_HOTSPOT cfg then []
         else (let hotspots = cluster_points geodesic cfg all_points (HOTSPOT_RADIUS cfg)
               in case rank_hotspots now cfg hotspots of
                    Inl e \<Rightarrow> []
                  | Inr ranked_hotspots \<Rightarrow> take 10 ranked_hotspots))"

subsection \<open>Trend direction\<close>

text \<open>The dicts of \<open>all_events\<close> in \<open>_analyze_trends\<close>.\<close>

record event =
  ev_timestamp :: int
  ev_type :: string
  ev_severity :: string

text \<open>
  \<open>_calculate_trend_direction\<close>; \<open>total_days\<close> is \<open>(end_date - start_date).days\<close>.
  \<open>sorted\<close> is stable, as \<open>sort_key\<close> is.
\<close>

definition calculate_trend_direction :: "event list \<Rightarrow> int \<Rightarrow> string" where
  "calculate_trend_direction events total_days =
     (if length events < 4 \<or> total_days < 7 then ''insufficient_data''
      else (let sorted_events = sort_key ev_timestamp events;
                mid_point = length sorted_events div 2;
                first_half = take mid_point sorted_events;
                second_half = drop mid_point sorted_events;
                first_half_rate = real (length first_half) / (real_of_int total_days / 2);
                second_half_rate = real (length second_half) / (real_of_int total_days / 2);
                change_ratio = (if first_half_rate > 0 then second_half_rate / first_half_rate else 1)
            in if change_ratio > 1.2 then ''increasing''
               else if change_ratio < 0.8 then ''decreasing''
               else ''stable''))"

section \<open>Anomaly engine (ml_models/anomaly_detector.py)\<close>

subsection \<open>Telemetry and its enrichment\<close>

text \<open>
  A point of \<open>location_data\<close>. \<open>lat\<close> and \<open>lng\<close> are \<open>None\<close> when the key is absent
  (\<open>point['lat']\<close> raises KeyError); \<open>tp_timestamp\<close> is the outcome of
  \<open>datetime.fromisoformat(point['timestamp'].replace('Z', '+00:00'))\<close>, which raises when
  the key is absent or the string is no ISO date; \<open>accuracy\<close> and \<open>speed\<close> are read with
  \<open>.get\<close>.
\<close>

record telemetry_point =
  tp_lat :: "real option"
  tp_lng :: "real option"
  tp_timestamp :: "py_exception + datetime"
  tp_accuracy :: "real option"
  tp_speed :: "real option"

record processed_point =
  pp_lat :: real
  pp_lng :: real
  pp_timestamp :: datetime
  pp_accuracy :: real
  pp_speed :: real
  pp_calculated_speed :: real
  pp_distance_from_prev :: real
  pp_time_from_prev :: real

text \<open>
  The loop of \<open>_process_location_data\<close> from index \<open>i\<close> on, with the list \<open>processed\<close> built
  so far. \<open>geodesic(...).meters\<close> is a thousand times the kilometres.
\<close>

fun process_loop ::
  "geodesic_fn \<Rightarrow> nat \<Rightarrow> telemetry_point list \<Rightarrow> processed_point list
     \<Rightarrow> py_exception + processed_point list" where
  "process_loop geodesic i [] processed = Inr processed"
| "process_loop geodesic i (point # rest) processed =
     (case tp_lat point of
        None \<Rightarrow> Inl KeyError
      | Some p_lat \<Rightarrow>
     (case tp_lng point of
        None \<Rightarrow> Inl KeyError
      | Some p_lng \<Rightarrow>
     (case tp_timestamp point of
        Inl e \<Rightarrow> Inl e
      | Inr p_timestamp \<Rightarrow>
     (let p_accuracy = field_get (tp_accuracy point) 10;
          p_speed = field_get (tp_speed point) 0
      in if i > 0
         then (let prev_point = processed ! (i - 1);
                   distance = geodesic (pp_lat prev_point, pp_lng prev_point) (p_lat, p_lng) * 1000
               in case dt_diff p_timestamp (pp_timestamp prev_point) of
                    Inl e \<Rightarrow> Inl e
                  | Inr time_diff \<Rightarrow>
                      process_loop geodesic (i + 1) rest
                        (processed @
                          [\<lparr> pp_lat = p_lat, pp_lng = p_lng, pp_timestamp = p_timestamp,
                             pp_accuracy = p_accuracy, pp_speed = p_speed,
                             pp_calculated_speed =
                               (if p_speed = 0 \<and> time_diff > 0
                                then (distance / time_diff) * 3.6 else p_speed),
                             pp_distance_from_prev = distance,
                             pp_time_from_prev = time_diff \<rparr>]))
         else process_loop geodesic (i + 1) rest
                (processed @
                  [\<lparr> pp_lat = p_lat, pp_lng = p_lng, pp_timestamp = p_timestamp,
                     pp_accuracy = p_accuracy, pp_speed = p_speed,
                     pp_calculated_speed = 0, pp_distance_from_prev = 0,
                     pp_time_from_prev = 0 \<rparr>])))))"

definition process_location_data ::
  "geodesic_fn \<Rightarrow> telemetry_point list \<Rightarrow> py_exception + processed_point list" where
  "process_location_data geodesic location_data = process_loop geodesic 0 location_data []"

subsection \<open>Movement profile\<close>

record frequent_location =
  fl_center :: latlng
  fl_visit_count :: int

record movement_profile =
  mp_avg_speed :: real
  mp_max_speed :: real
  mp_speed_std :: real
  mp_avg_distance :: real
  mp_avg_time_interval :: real
  mp_typical_locations :: "frequent_location list"
  mp_speed_percentile_95 :: real
  mp_speed_percentile_99 :: real

definition get_default_profile :: movement_profile where
  "get_default_profile =
     \<lparr> mp_avg_speed = 25.0, mp_max_speed = 60.0, mp_speed_std = 15.0, mp_avg_distance = 500.0,
       mp_avg_time_interval = 300.0, mp_typical_locations = [],
       mp_speed_percentile_95 = 80.0, mp_speed_percentile_99 = 120.0 \<rparr>"

text \<open>The clusters that \<open>_get_frequent_locations\<close> builds.\<close>

record location_cluster =
  lc_center :: latlng
  lc_points :: "latlng list"
  lc_count :: int

text \<open>
  The \<open>for cluster in clusters\<close> loop, which adds the location to the first cluster whose
  centre is within the radius and breaks; \<open>None\<close> when \<open>added_to_cluster\<close> stays false.
\<close>

fun add_to_cluster ::
  "geodesic_fn \<Rightarrow> real \<Rightarrow> latlng \<Rightarrow> location_cluster list \<Rightarrow> location_cluster list option" where
  "add_to_cluster geodesic radius_m location [] = None"
| "add_to_cluster geodesic radius_m location (cluster # rest) =
     (let distance = geodesic location (lc_center cluster) * 1000
      in if distance \<le> radius_m
         then Some (cluster \<lparr> lc_points := lc_points cluster @ [location],
                              lc_count := lc_count cluster + 1 \<rparr> # rest)
         else (case add_to_cluster geodesic radius_m location rest of
                 None \<Rightarrow> None
               | Some rest' \<Rightarrow> Some (cluster # rest')))"

text \<open>The \<open>for location in locations\<close> loop.\<close>

fun frequent_loop ::
  "geodesic_fn \<Rightarrow> real \<Rightarrow> latlng list \<Rightarrow> location_cluster list \<Rightarrow> location_cluster list" where
  "frequent_loop geodesic radius_m [] clusters = clusters"
| "frequent_loop geodesic radius_m (location # rest) clusters =
     (case add_to_cluster geodesic radius_m location clusters of
        Some clusters' \<Rightarrow> frequent_loop geodesic radius_m rest clusters'
      | None \<Rightarrow>
          frequent_loop geodesic radius_m rest
            (clusters @ [\<lparr> lc_center = location, lc_points = [location], lc_count = 1 \<rparr>]))"

definition get_frequent_locations ::
  "geodesic_fn \<Rightarrow> latlng list \<Rightarrow> real \<Rightarrow> frequent_location list" where
  "get_frequent_locations geodesic locations radius_m =
     (if length locations < 5 then []
      else map (\<lambda>cluster. \<lparr> fl_center = lc_center cluster, fl_visit_count = lc_count cluster \<rparr>)
             (filter (\<lambda>cluster. lc_count cluster \<ge> 3)
                (frequent_loop geodesic radius_m locations [])))"

text \<open>A record of \<open>get_user_location_history\<close>; \<open>coordinates\<close> is [lng, lat].\<close>

record history_entry =
  he_coordinates :: "(real \<times> real) option"
  he_timestamp :: int

text \<open>
  The loop of \<open>_build_user_profile\<close> over consecutive records, with the four lists
  \<open>speeds\<close>, \<open>distances\<close>, \<open>time_intervals\<close> and \<open>locations\<close>.
\<close>

fun profile_loop ::
  "geodesic_fn \<Rightarrow> history_entry list \<Rightarrow> real list \<times> real list \<times> real list \<times> latlng list
     \<Rightarrow> real list \<times> real list \<times> real list \<times> latlng list" where
  "profile_loop geodesic (prev_rec # curr_rec # rest) (speeds, distances, time_intervals, locations) =
     (case he_coordinates curr_rec of
        None \<Rightarrow> profile_loop geodesic (curr_rec # rest) (speeds, distances, time_intervals, locations)
      | Some curr_coords \<Rightarrow>
     (case he_coordinates prev_rec of
        None \<Rightarrow> profile_loop geodesic (curr_rec # rest) (speeds, distances, time_intervals, locations)
      | Some prev_coords \<Rightarrow>
     (let distance = geodesic (snd prev_coords, fst prev_coords) (snd curr_coords, fst curr_coords) * 1000;
          time_diff = real_of_int (he_timestamp curr_rec - he_timestamp prev_rec)
      in if time_diff > 0
         then profile_loop geodesic (curr_rec # rest)
                (speeds @ [(distance / time_diff) * 3.6], distances @ [distance],
                 time_intervals @ [time_diff], locations @ [(snd curr_coords, fst curr_coords)])
         else profile_loop geodesic (curr_rec # rest) (speeds, distances, time_intervals, locations))))"
| "profile_loop geodesic history acc = acc"

text \<open>\<open>np.std\<close> (the population standard deviation) and \<open>np.percentile\<close> (linear interpolation).\<close>

definition np_std :: "real list \<Rightarrow> real" where
  "np_std xs = sqrt (np_mean (map (\<lambda>x. (x - np_mean xs)\<^sup>2) xs))"

definition np_percentile :: "real list \<Rightarrow> real \<Rightarrow> real" where
  "np_percentile xs q =
     (let s = sort xs;
          pos = (q / 100) * real (length xs - 1);
          lo = nat \<lfloor>pos\<rfloor>;
          hi = min (lo + 1) (length xs - 1)
      in s ! lo + (pos - real lo) * (s ! hi - s ! lo))"

definition build_user_profile :: "geodesic_fn \<Rightarrow> history_entry list \<Rightarrow> movement_profile" where
  "build_user_profile geodesic location_history =
     (case profile_loop geodesic location_history ([], [], [], []) of
        (speeds, distances, time_intervals, locations) \<Rightarrow>
          \<lparr> mp_avg_speed = (if speeds \<noteq> [] then np_mean speeds else 0),
            mp_max_speed = (case speeds of [] \<Rightarrow> 0 | x # xs \<Rightarrow> foldl max x xs),
            mp_speed_std = (if speeds \<noteq> [] then np_std speeds else 0),
            mp_avg_distance = (if distances \<noteq> [] then np_mean distances else 0),
            mp_avg_time_interval = (if time_intervals \<noteq> [] then np_mean time_intervals else 0),
            mp_typical_locations = get_frequent_locations geodesic locations 100,
            mp_speed_percentile_95 = (if speeds \<noteq> [] then np_percentile speeds 95 else 0),
            mp_speed_percentile_99 = (if speeds \<noteq> [] then np_percentile speeds 99 else 0) \<rparr>)"

subsection \<open>Verdicts and the four sub-detectors\<close>

text \<open>The \<open>details\<close> strings, with the number each one formats.\<close>

datatype anomaly_details =
    Insufficient_data
  | Speed_exceeds_threshold real
  | Speed_unusual real
  | Sudden_speed_change real
  | Erratic_movement real
  | Location_far real
  | Late_night int
  | Detection_error py_exception

text \<open>A verdict dict; \<open>details\<close> is \<open>None\<close> where the dict has no such key.\<close>

record verdict =
  is_anomaly :: bool
  confidence :: real
  anomaly_type :: "string option"
  details :: "anomaly_details option"

definition no_anomaly :: verdict where
  "no_anomaly = \<lparr> is_anomaly = False, confidence = 0.0, anomaly_type = None, details = None \<rparr>"

text \<open>What the handler of a sub-detector returns.\<close>

definition detector_error :: verdict where
  "detector_error =
     \<lparr> is_anomaly = False, confidence = 0.0, anomaly_type = Some ''error'', details = None \<rparr>"

text \<open>\<open>max(xs)\<close> and \<open>min(xs)\<close> of a list of floats; ValueError on the empty list.\<close>

fun py_max :: "real list \<Rightarrow> py_exception + real" where
  "py_max [] = Inl ValueError"
| "py_max (x # xs) = Inr (foldl max x xs)"

fun py_min :: "real list \<Rightarrow> py_exception + real" where
  "py_min [] = Inl ValueError"
| "py_min (x # xs) = Inr (foldl min x xs)"

text \<open>The loop \<open>for i in range(1, len(speeds))\<close> of \<open>_detect_speed_anomaly\<close>.\<close>

fun speed_changes :: "real list \<Rightarrow> real list" where
  "speed_changes (a # b # rest) = \<bar>b - a\<bar> # speed_changes (b # rest)"
| "speed_changes speeds = []"

definition detect_speed_anomaly ::
  "config \<Rightarrow> processed_point list \<Rightarrow> movement_profile \<Rightarrow> verdict" where
  "detect_speed_anomaly cfg processed_data user_profile =
     (let speeds = filter (\<lambda>s. s > 0) (map pp_calculated_speed processed_data)
      in if speeds = [] then no_anomaly
         else (case py_max speeds of
                 Inl e \<Rightarrow> detector_error
               | Inr max_speed \<Rightarrow>
                   if max_speed > MOVEMENT_SPEED_THRESHOLD cfg
                   then \<lparr> is_anomaly = True, confidence = 0.9,
                          anomaly_type = Some ''excessive_speed'',
                          details = Some (Speed_exceeds_threshold max_speed) \<rparr>
                   else (let user_99th = mp_speed_percentile_99 user_profile
                         in if max_speed > user_99th * 1.5
                            then \<lparr> is_anomaly = True, confidence = 0.8,
                                   anomaly_type = Some ''unusual_speed'',
                                   details = Some (Speed_unusual max_speed) \<rparr>
                            else (let changes = speed_changes speeds
                                  in if changes = [] then no_anomaly
                                     else (case py_max changes of
                                             Inl e \<Rightarrow> detector_error
                                           | Inr max_change \<Rightarrow>
                                               if max_change > 50
                                               then \<lparr> is_anomaly = True, confidence = 0.7,
                                                      anomaly_type = Some ''sudden_speed_change'',
                                                      details = Some (Sudden_speed_change max_change) \<rparr>
                                               else no_anomaly)))))"

text \<open>
  The bearings of \<open>_detect_pattern_anomaly\<close>: \<open>np.arctan2(lng_diff, lat_diff)\<close> is the
  argument of the complex number \<open>lat_diff + i * lng_diff\<close>.
\<close>

fun bearings :: "processed_point list \<Rightarrow> real list" where
  "bearings (prev_rec # curr_rec # rest) =
     (if pp_distance_from_prev curr_rec > 10
      then Arg (Complex (pp_lat curr_rec - pp_lat prev_rec) (pp_lng curr_rec - pp_lng prev_rec))
             # bearings (curr_rec # rest)
      else bearings (curr_rec # rest))"
| "bearings processed_data = []"

fun direction_changes :: "real list \<Rightarrow> real list" where
  "direction_changes (a # b # rest) =
     (let change = \<bar>b - a\<bar>
      in (if change > pi then 2 * pi - change else change) # direction_changes (b # rest))"
| "direction_changes directions = []"

definition detect_pattern_anomaly :: "processed_point list \<Rightarrow> movement_profile \<Rightarrow> verdict" where
  "detect_pattern_anomaly processed_data user_profile =
     (if length processed_data < 3 then no_anomaly
      else (let directions = bearings processed_data
            in if length directions \<ge> 3
               then (let changes = direction_changes directions;
                         large_changes = length (filter (\<lambda>change. change > pi / 2) changes);
                         erratic_ratio = real large_changes / real (length changes)
                     in if erratic_ratio > 0.7
                        then \<lparr> is_anomaly = True, confidence = 0.6,
                               anomaly_type = Some ''erratic_movement'',
                               details = Some (Erratic_movement erratic_ratio) \<rparr>
                        else no_anomaly)
               else no_anomaly))"

text \<open>
  The loop over \<open>current_locations\<close> of \<open>_detect_location_anomaly\<close>: the least distance in
  km of each location to a typical one.
\<close>

fun min_distances :: "geodesic_fn \<Rightarrow> latlng list \<Rightarrow> frequent_location list \<Rightarrow> real list" where
  "min_distances geodesic [] typical = []"
| "min_distances geodesic (curr_loc # rest) typical =
     (case py_min (map (\<lambda>typical_loc. geodesic curr_loc (fl_center typical_loc)) typical) of
        Inl e \<Rightarrow> min_distances geodesic rest typical
      | Inr least \<Rightarrow> least # min_distances geodesic rest typical)"

definition detect_location_anomaly ::
  "geodesic_fn \<Rightarrow> processed_point list \<Rightarrow> movement_profile \<Rightarrow> verdict" where
  "detect_location_anomaly geodesic processed_data user_profile =
     (if mp_typical_locations user_profile = [] then no_anomaly
      else (let current_locations = map (\<lambda>point. (pp_lat point, pp_lng point)) processed_data;
                dists = min_distances geodesic current_locations (mp_typical_locations user_profile)
            in if dists \<noteq> []
               then (let avg_distance_from_typical = np_mean dists
                     in if avg_distance_from_typical > 10.0
                        then \<lparr> is_anomaly = True, confidence = 0.5,
                               anomaly_type = Some ''unusual_location'',
                               details = Some (Location_far avg_distance_from_typical) \<rparr>
                        else no_anomaly)
               else no_anomaly))"

text \<open>\<open>_detect_time_anomaly\<close>; \<open>processed_data[0]\<close> raises on the empty list, into the handler.\<close>

definition detect_time_anomaly :: "processed_point list \<Rightarrow> movement_profile \<Rightarrow> verdict" where
  "detect_time_anomaly processed_data user_profile =
     (case processed_data of
        [] \<Rightarrow> detector_error
      | first # rest \<Rightarrow>
          (let current_hour = dt_hour (pp_timestamp first)
           in if 2 \<le> current_hour \<and> current_hour \<le> 5
              then \<lparr> is_anomaly = True, confidence = 0.4,
                     anomaly_type = Some ''unusual_time'',
                     details = Some (Late_night current_hour) \<rparr>
              else no_anomaly))"

subsection \<open>The engine and its state\<close>

text \<open>The record handed to \<open>store_anomaly_detection\<close>.\<close>

record anomaly_record =
  ar_user_id :: string
  ar_location_data_sample :: "telemetry_point list"
  ar_anomaly_result :: verdict
  ar_detection_timestamp :: int

text \<open>
  The state of an \<open>AnomalyDetector\<close>: the cache \<open>self.user_profiles\<close>, and the calls it has
  made on \<open>self.db_client\<close>, oldest first.
\<close>

datatype gateway_call =
    Get_user_location_history string nat
  | Store_anomaly_detection anomaly_record

record detector =
  user_profiles :: "string \<rightharpoonup> movement_profile"
  db_calls :: "gateway_call list"

text \<open>What \<open>get_user_location_history(user_id, hours_back)\<close> answers; a gateway may raise.\<close>

type_synonym history_gateway = "string \<Rightarrow> nat \<Rightarrow> py_exception + history_entry list"

definition get_user_movement_profile ::
  "history_gateway \<Rightarrow> geodesic_fn \<Rightarrow> detector \<Rightarrow> string \<Rightarrow> movement_profile \<times> detector" where
  "get_user_movement_profile db geodesic self user_id =
     (case user_profiles self user_id of
        Some profile \<Rightarrow> (profile, self)
      | None \<Rightarrow>
          (let called = self \<lparr> db_calls := db_calls self @ [Get_user_location_history user_id (24 * 7)] \<rparr>
           in case db user_id (24 * 7) of
                Inl e \<Rightarrow> (get_default_profile, called)
              | Inr history \<Rightarrow>
                  (let profile = (if length history < 10 then get_default_profile
                                  else build_user_profile geodesic history)
                   in (profile, called \<lparr> user_profiles := (user_profiles called)(user_id \<mapsto> profile) \<rparr>))))"

text \<open>
  \<open>_store_anomaly_result\<close>: the call is made, and whatever the gateway raises is swallowed.
\<close>

definition store_anomaly_result ::
  "int \<Rightarrow> detector \<Rightarrow> string \<Rightarrow> telemetry_point list \<Rightarrow> verdict \<Rightarrow> detector" where
  "store_anomaly_result now self user_id location_data anomaly_result =
     self \<lparr> db_calls := db_calls self @
       [Store_anomaly_detection
          \<lparr> ar_user_id = user_id, ar_location_data_sample = take 5 location_data,
            ar_anomaly_result = anomaly_result, ar_detection_timestamp = now \<rparr>] \<rparr>"

text \<open>
  The \<open>try\<close> block of \<open>detect_anomalies\<close>: what it returns or raises, and the state it leaves.
\<close>

definition detect_anomalies_body ::
  "history_gateway \<Rightarrow> geodesic_fn \<Rightarrow> config \<Rightarrow> int \<Rightarrow> detector \<Rightarrow> string \<Rightarrow> telemetry_point list
     \<Rightarrow> (py_exception + verdict) \<times> detector" where
  "detect_anomalies_body db geodesic cfg now self user_id location_data =
     (if length location_data < 2
      then (Inr \<lparr> is_anomaly = False, confidence = 0.0, anomaly_type = None,
                  details = Some Insufficient_data \<rparr>, self)
      else (case process_location_data geodesic location_data of
              Inl e \<Rightarrow> (Inl e, self)
            | Inr processed_data \<Rightarrow>
                (case get_user_movement_profile db geodesic self user_id of
                   (user_profile, self1) \<Rightarrow>
                     (let speed_anomaly = detect_speed_anomaly cfg processed_data user_profile;
                          pattern_anomaly = detect_pattern_anomaly processed_data user_profile;
                          location_anomaly = detect_location_anomaly geodesic processed_data user_profile;
                          time_anomaly = detect_time_anomaly processed_data user_profile;
                          anomalies = [speed_anomaly, pattern_anomaly, location_anomaly, time_anomaly]
                      in case py_max_by confidence anomalies of
                           Inl e \<Rightarrow> (Inl e, self1)
                         | Inr max_confidence_anomaly \<Rightarrow>
                             (Inr max_confidence_anomaly,
                              store_anomaly_result now self1 user_id location_data
                                max_confidence_anomaly)))))"

text \<open>\<open>detect_anomalies\<close>: the \<open>try\<close> block under its \<open>except Exception\<close> handler.\<close>

definition detect_anomalies ::
  "history_gateway \<Rightarrow> geodesic_fn \<Rightarrow> config \<Rightarrow> int \<Rightarrow> detector \<Rightarrow> string \<Rightarrow> telemetry_point list
     \<Rightarrow> verdict \<times> detector" where
  "detect_anomalies db geodesic cfg now self user_id location_data =
     (case detect_anomalies_body db geodesic cfg now self user_id location_data of
        (Inl e, self') \<Rightarrow>
          (\<lparr> is_anomaly = False, confidence = 0.0, anomaly_type = Some ''error'',
             details = Some (Detection_error e) \<rparr>, self')
      | (Inr result, self') \<Rightarrow> (result, self'))"

section \<open>The risk formulas as the specification words them, and example inputs\<close>

text \<open>
  The specification's per-point risk: \<open>min(80, (weighted_incident_score + alert_count * 2) / 10 * 80)\<close>
  with a floor of 5, an incident weighing its type weight times its severity multiplier.
\<close>

definition spec_type_weight :: "string \<Rightarrow> real" where
  "spec_type_weight t =
     (if t = ''crime'' then 3 else if t = ''accident'' then 2 else if t = ''medical'' then 1.5
      else if t = ''fire'' then 2.5 else 1)"

definition spec_severity_multiplier :: "string \<Rightarrow> real" where
  "spec_severity_multiplier s =
     (if s = ''low'' then 0.5 else if s = ''medium'' then 1 else if s = ''high'' then 1.5
      else if s = ''critical'' then 2 else 1)"

definition spec_incident_weight :: "incident \<Rightarrow> real" where
  "spec_incident_weight i =
     spec_type_weight (field_get (inc_type i) ''other'') *
     spec_severity_multiplier (field_get (inc_severity i) ''medium'')"

definition spec_point_risk :: "incident list \<Rightarrow> panic_alert list \<Rightarrow> real" where
  "spec_point_risk incidents panic_alerts =
     max 5 (min 80 ((sum_list (map spec_incident_weight incidents)
                      + real (length panic_alerts) * 2) / 10 * 80))"

definition example_gateway :: risk_gateway where
  "example_gateway = \<lparr>
     get_incidents_in_area = (\<lambda>clat clng radius start_date.
        Inr [\<lparr> inc_coordinates = Some (clng, clat), inc_type = Some ''crime'',
               inc_severity = Some ''high'', inc_createdAt = Some (Instant start_date) \<rparr>]),
     get_panic_alerts_in_area = (\<lambda>clat clng radius start_date.
        Inr [\<lparr> pa_coordinates = Some (clng, clat), pa_timestamp = Some (Instant start_date) \<rparr>]) \<rparr>"

definition empty_gateway :: risk_gateway where
  "empty_gateway = \<lparr>
     get_incidents_in_area = (\<lambda>clat clng radius start_date. Inr []),
     get_panic_alerts_in_area = (\<lambda>clat clng radius start_date. Inr []) \<rparr>"

definition example_route :: route where
  "example_route = \<lparr> start_point = \<lparr> lat = 28.6139, lng = 77.2090 \<rparr>,
                      end_point = \<lparr> lat = 28.7041, lng = 77.1025 \<rparr>,
                      waypoints = None \<rparr>"

definition example_geodesic :: geodesic_fn where
  "example_geodesic a b = 14"

section \<open>Auxiliary definitions for the anomaly engine\<close>

text \<open>
  Example inputs: an enriched point and a telemetry point at a wall-clock second, an engine
  that has made no call and cached no profile, and gateways that raise and that hold no history.
\<close>

definition example_processed :: "int \<Rightarrow> real \<Rightarrow> processed_point" where
  "example_processed wall calculated_speed =
     \<lparr> pp_lat = 28.6139, pp_lng = 77.2090,
       pp_timestamp = \<lparr> dt_wall = wall, dt_utcoffset = Some 0 \<rparr>,
       pp_accuracy = 10, pp_speed = 0, pp_calculated_speed = calculated_speed,
       pp_distance_from_prev = 0, pp_time_from_prev = 0 \<rparr>"

definition example_telemetry :: "real \<Rightarrow> real \<Rightarrow> int \<Rightarrow> telemetry_point" where
  "example_telemetry p_lat p_lng wall =
     \<lparr> tp_lat = Some p_lat, tp_lng = Some p_lng,
       tp_timestamp = Inr \<lparr> dt_wall = wall, dt_utcoffset = Some 0 \<rparr>,
       tp_accuracy = None, tp_speed = None \<rparr>"

definition empty_detector :: detector where
  "empty_detector = \<lparr> user_profiles = Map.empty, db_calls = [] \<rparr>"

definition failing_history :: history_gateway where
  "failing_history user_id hours_back = Inl GatewayError"

definition empty_history :: history_gateway where
  "empty_history user_id hours_back = Inr []"

text \<open>
  The verdict of the time sub-detector when it fires.
\<close>

definition unusual_time_verdict :: "int \<Rightarrow> verdict" where
  "unusual_time_verdict h = \<lparr> is_anomaly = True, confidence = 0.4,
     anomaly_type = Some ''unusual_time'', details = Some (Late_night h) \<rparr>"

section \<open>Auxiliary definitions for the pattern engine\<close>

text \<open>
  A point is near a seed when \<open>_cluster_points\<close> puts it into the seed's cluster; the cluster
  a seed forms out of the points that are still unclustered.
\<close>

definition near :: "geodesic_fn \<Rightarrow> real \<Rightarrow> hot_point \<Rightarrow> hot_point \<Rightarrow> bool" where
  "near geodesic radius_km seed_point point \<longleftrightarrow>
     geodesic (hp_lat seed_point, hp_lng seed_point) (hp_lat point, hp_lng point) \<le> radius_km"

definition formed_cluster :: "geodesic_fn \<Rightarrow> real \<Rightarrow> hot_point \<Rightarrow> hot_point list \<Rightarrow> cluster" where
  "formed_cluster geodesic radius_km seed_point unclustered_points =
     update_center
       \<lparr> cl_center = \<lparr> lat = hp_lat seed_point, lng = hp_lng seed_point \<rparr>,
         cl_points = seed_point # filter (near geodesic radius_km seed_point) unclustered_points,
         cl_incident_count =
           1 + int (length (filter (near geodesic radius_km seed_point) unclustered_points)) \<rparr>"

text \<open>
  Example inputs: a distance of 111 km per degree of latitude, and a hotspot point.
\<close>

definition lat_geodesic :: geodesic_fn where
  "lat_geodesic a b = \<bar>fst a - fst b\<bar> * 111"

definition example_hot_point :: "real \<Rightarrow> string \<Rightarrow> string \<Rightarrow> int \<Rightarrow> hot_point" where
  "example_hot_point p_lat subtype severity timestamp =
     \<lparr> hp_lat = p_lat, hp_lng = 77.2090, hp_type = ''incident'', hp_subtype = subtype,
       hp_severity = severity, hp_timestamp = Instant timestamp \<rparr>"

text \<open>
  The trend direction as the specification words it: the event rate in the first half of
  the time range against the rate in its second half. The example is a window of ten days
  with three events in its first five days and seven in its last five.
\<close>

definition spec_trend_direction :: "int \<Rightarrow> int \<Rightarrow> event list \<Rightarrow> string" where
  "spec_trend_direction start_date end_date events =
     (let total_days = (end_date - start_date) div seconds_per_day
      in if length events < 4 \<or> total_days < 7 then ''insufficient_data''
         else (let mid_date = start_date + (end_date - start_date) div 2;
                   first_half = filter (\<lambda>e. ev_timestamp e < mid_date) events;
                   second_half = filter (\<lambda>e. mid_date \<le> ev_timestamp e) events;
                   first_half_rate = real (length first_half) / (real_of_int total_days / 2);
                   second_half_rate = real (length second_half) / (real_of_int total_days / 2);
                   change_ratio = (if first_half_rate > 0 then second_half_rate / first_half_rate else 1)
               in if change_ratio > 1.2 then ''increasing''
                  else if change_ratio < 0.8 then ''decreasing''
                  else ''stable''))"

definition example_event :: "int \<Rightarrow> event" where
  "example_event day = \<lparr> ev_timestamp = day * seconds_per_day + 43200, ev_type = ''crime'',
     ev_severity = ''medium'' \<rparr>"

definition example_events :: "event list" where
  "example_events = map example_event [0, 2, 4, 5, 5, 6, 7, 8, 9, 9]"

text \<open>
  The score of a hotspot as a formula: the sum over the member points of severity weight
  times type weight, times the average over the members of the time decay
  \<open>max(0.1, 1 - days_old / 30)\<close>. \<open>claimed_type_weight\<close> is the table of the
  specification (medical 1.5, fire 2.5, panic_alert 3); \<open>listed_type_weight\<close> is the table of
  \<open>_rank_hotspots\<close> on the five incident types it lists. The age of a point is counted from
  the instant of its time stamp, which a naive time stamp has: a datetime of the store, or a
  string without an offset. \<open>naive_stamps\<close> says that every point of a list has one.
\<close>

definition hotspot_severity_weight :: "string \<Rightarrow> real" where
  "hotspot_severity_weight s =
     (if s = ''low'' then 1 else if s = ''medium'' then 2 else if s = ''high'' then 3
      else if s = ''critical'' then 4 else 2)"

definition claimed_type_weight :: "string \<Rightarrow> real" where
  "claimed_type_weight t =
     (if t = ''crime'' then 3 else if t = ''accident'' then 2 else if t = ''medical'' then 1.5
      else if t = ''fire'' then 2.5 else if t = ''panic_alert'' then 3 else 1)"

definition listed_type_weight :: "string \<Rightarrow> real" where
  "listed_type_weight t =
     (if t = ''crime'' then 3 else if t = ''accident'' then 2 else if t = ''medical'' then 2
      else if t = ''fire'' then 2 else 1)"

definition listed_types :: "string set" where
  "listed_types = {''crime'', ''accident'', ''medical'', ''fire'', ''other''}"

definition naive_instant :: "time_value \<Rightarrow> int option" where
  "naive_instant v =
     (case v of
        Instant t \<Rightarrow> Some t
      | Iso_text outcome \<Rightarrow>
          (case outcome of
             Inl e \<Rightarrow> None
           | Inr d \<Rightarrow> (case dt_utcoffset d of None \<Rightarrow> Some (dt_wall d) | Some off \<Rightarrow> None)))"

definition naive_stamps :: "hot_point list \<Rightarrow> bool" where
  "naive_stamps points = list_all (\<lambda>p. naive_instant (hp_timestamp p) \<noteq> None) points"

definition time_decay :: "int \<Rightarrow> hot_point \<Rightarrow> real" where
  "time_decay now point =
     max 0.1 (1 - real_of_int ((now - the (naive_instant (hp_timestamp point))) div seconds_per_day) / 30)"

definition hotspot_score_formula :: "(string \<Rightarrow> real) \<Rightarrow> int \<Rightarrow> hot_point list \<Rightarrow> real" where
  "hotspot_score_formula type_weight now points =
     sum_list (map (\<lambda>p. hotspot_severity_weight (hp_severity p) * type_weight (hp_subtype p)) points)
       * (sum_list (map (time_decay now) points) / real (length points))"

text \<open>
  Example inputs: a medical incident of medium severity and a crime of high severity one
  degree of latitude further north, both with a datetime of the store; the medical incident
  with its time stamp as a string that ends in \<open>Z\<close>; the cluster of the one medical incident;
  a cluster of three incidents of age 0, 15 and 60 days at the clock reading of day 60; and
  five medical incidents followed by five crimes.
\<close>

definition medical_incident :: incident where
  "medical_incident = \<lparr> inc_coordinates = Some (77.2090, 28.6139), inc_type = Some ''medical'',
     inc_severity = Some ''medium'', inc_createdAt = Some (Instant 0) \<rparr>"

definition crime_incident :: incident where
  "crime_incident = \<lparr> inc_coordinates = Some (77.2090, 29.6139), inc_type = Some ''crime'',
     inc_severity = Some ''high'', inc_createdAt = Some (Instant 0) \<rparr>"

definition zulu_incident :: incident where
  "zulu_incident = \<lparr> inc_coordinates = Some (77.2090, 28.6139), inc_type = Some ''medical'',
     inc_severity = Some ''medium'',
     inc_createdAt = Some (Iso_text (Inr \<lparr> dt_wall = 0, dt_utcoffset = Some 0 \<rparr>)) \<rparr>"

definition medical_cluster :: cluster where
  "medical_cluster = \<lparr> cl_center = \<lparr> lat = 28.6139, lng = 77.2090 \<rparr>,
     cl_points = incident_points 0 [medical_incident], cl_incident_count = 1 \<rparr>"

definition aged_cluster :: cluster where
  "aged_cluster = \<lparr> cl_center = \<lparr> lat = 28, lng = 77.2090 \<rparr>,
     cl_points = [example_hot_point 28 ''crime'' ''high'' 5184000,
                  example_hot_point 28 ''medical'' ''medium'' 3888000,
                  example_hot_point 28 ''fire'' ''low'' 0],
     cl_incident_count = 3 \<rparr>"

definition ten_incidents :: "incident list" where
  "ten_incidents =
     [medical_incident, medical_incident, medical_incident, medical_incident, medical_incident,
      crime_incident, crime_incident, crime_incident, crime_incident, crime_incident]"

section \<open>Verification: rounding\<close>

lemma py_round_bounds: "\<lfloor>x\<rfloor> \<le> py_round x \<and> py_round x \<le> \<lfloor>x\<rfloor> + 1"
  by (simp add: py_round_def Let_def)

lemma py_round_mono: "x \<le> y \<Longrightarrow> py_round x \<le> py_round y"
proof (cases "\<lfloor>x\<rfloor> < \<lfloor>y\<rfloor>")
  case True
  have "py_round x \<le> \<lfloor>x\<rfloor> + 1" using py_round_bounds by blast
  also have "\<dots> \<le> \<lfloor>y\<rfloor>" using True by simp
  also have "\<dots> \<le> py_round y" using py_round_bounds by blast
  finally show ?thesis .
next
  case False
  assume xy: "x \<le> y"
  then have "\<lfloor>x\<rfloor> \<le> \<lfloor>y\<rfloor>" by (rule floor_mono)
  with False have eq: "\<lfloor>x\<rfloor> = \<lfloor>y\<rfloor>" by simp
  with xy show ?thesis by (auto simp: py_round_def Let_def)
qed

lemma py_round2_mono: "x \<le> y \<Longrightarrow> py_round2 x \<le> py_round2 y"
  unfolding py_round2_def using py_round_mono [of "x * 100" "y * 100"]
  by (simp add: divide_right_mono)

section \<open>Verification: risk engine\<close>

lemma foldl_add_incident:
  "foldl add_incident acc incidents =
     acc + sum_list (map (\<lambda>i. add_incident 0 i) incidents)"
proof (induction incidents arbitrary: acc)
  case Nil
  then show ?case by simp
next
  case (Cons i incidents)
  have "add_incident acc i = acc + add_incident 0 i"
    by (simp add: add_incident_def Let_def)
  with Cons show ?case by (simp add: add.assoc)
qed

lemma calculate_point_risk_range:
  "5 \<le> calculate_point_risk incidents panic_alerts \<and> calculate_point_risk incidents panic_alerts \<le> 80"
  by (simp add: calculate_point_risk_def Let_def)

lemma calculate_point_risk_empty: "calculate_point_risk [] [] = 5"
  by (simp add: calculate_point_risk_def)

lemma historical_loop_ok:
  assumes "\<forall>p \<in> set pts.
      get_incidents_in_area db (lat p) (lng p) (RISK_PREDICTION_RADIUS cfg) (now - 365 * seconds_per_day) = Inr (incs p) \<and>
      get_panic_alerts_in_area db (lat p) (lng p) (RISK_PREDICTION_RADIUS cfg) (now - 365 * seconds_per_day) = Inr (als p)"
  shows "historical_loop db cfg now pts (total_risk, point_count) =
     Inr (total_risk + sum_list (map (\<lambda>p. calculate_point_risk (incs p) (als p)) pts),
          point_count + length pts)"
  using assms
proof (induction pts arbitrary: total_risk point_count)
  case Nil
  then show ?case by simp
next
  case (Cons p pts)
  then show ?case by (simp add: add.assoc)
qed

lemma historical_loop_acc_range:
  "historical_loop db cfg now pts (t, n) = Inr (t', n') \<Longrightarrow>
     n' = n + length pts \<and> t + 5 * real (length pts) \<le> t' \<and> t' \<le> t + 80 * real (length pts)"
proof (induction pts arbitrary: t n)
  case Nil
  then show ?case by simp
next
  case (Cons p pts)
  from Cons.prems obtain incidents panic_alerts where
    rec: "historical_loop db cfg now pts (t + calculate_point_risk incidents panic_alerts, n + 1) = Inr (t', n')"
    by (auto split: sum.splits)
  from Cons.IH [OF rec] calculate_point_risk_range [of incidents panic_alerts]
  show ?case by (simp add: algebra_simps)
qed

lemma calculate_historical_risk_range:
  "5 \<le> calculate_historical_risk db cfg now s e w \<and> calculate_historical_risk db cfg now s e w \<le> 80"
proof (cases "historical_loop db cfg now ([s] @ w @ [e]) (0, 0)")
  case (Inl err)
  then show ?thesis by (simp add: calculate_historical_risk_def)
next
  case (Inr acc)
  obtain t n where acc: "acc = (t, n)" by (cases acc)
  from historical_loop_acc_range [OF Inr [unfolded acc]]
  have n: "n = length w + 2" and lo: "5 * real n \<le> t" and hi: "t \<le> 80 * real n"
    by (simp_all add: algebra_simps)
  have npos: "0 < real n" using n by simp
  have "5 \<le> t / real n" using lo npos by (simp add: pos_le_divide_eq mult.commute)
  moreover have "t / real n \<le> 80" using hi npos by (simp add: pos_divide_le_eq mult.commute)
  ultimately show ?thesis using Inr acc n
    by (simp add: calculate_historical_risk_def Let_def)
qed

lemma route_modifier_range:
  "0 \<le> geodesic (lat (start_point r), lng (start_point r)) (lat (end_point r), lng (end_point r)) \<Longrightarrow>
   1 \<le> get_route_characteristics_modifier geodesic r \<and> get_route_characteristics_modifier geodesic r \<le> 1.5"
proof -
  assume d: "0 \<le> geodesic (lat (start_point r), lng (start_point r)) (lat (end_point r), lng (end_point r))"
  define dm where "dm = 1.0 + (geodesic (lat (start_point r), lng (start_point r)) (lat (end_point r), lng (end_point r)) / 100) * 0.1"
  define wm where "wm = 1.0 + (real (length (field_get (waypoints r) [])) * 0.05)"
  have "1 \<le> dm" using d by (simp add: dm_def)
  moreover have "1 \<le> wm" by (simp add: wm_def)
  ultimately have "1 * 1 \<le> dm * wm" by (intro mult_mono) simp_all
  then show ?thesis
    by (simp add: get_route_characteristics_modifier_def Let_def dm_def wm_def)
qed

lemma add_incident_spec: "add_incident 0 i = spec_incident_weight i"
  by (simp add: add_incident_def spec_incident_weight_def spec_type_weight_def
      spec_severity_multiplier_def incident_weights_def severity_multipliers_def dict_get_def Let_def)

lemma calculate_point_risk_spec:
  "calculate_point_risk incidents panic_alerts = spec_point_risk incidents panic_alerts"
proof -
  have "foldl add_incident 0 incidents = sum_list (map spec_incident_weight incidents)"
    by (simp add: foldl_add_incident add_incident_spec)
  then show ?thesis
    by (simp add: calculate_point_risk_def spec_point_risk_def Let_def add_divide_distrib)
qed

text \<open>
  Claim C6. The per-point risk is \<open>min(80, (weighted_incident_score + alert_count * 2) / 10 * 80)\<close>
  with a floor of 5, an incident weighing its type weight times its severity multiplier
  (low 0.5, medium 1.0, high 1.5, critical 2.0); when the gateway answers for every route
  point, the base risk is the average of the per-point risks over all route points, capped
  at 80; and the final score (the \<open>risk_score\<close> that is stored) is
  \<open>min(100, base * time_multiplier * route_multiplier)\<close>, returned rounded to two decimals.
\<close>

theorem C6_risk_formula:
  assumes "\<forall>p \<in> set ([start_point r] @ field_get (waypoints r) [] @ [end_point r]).
      get_incidents_in_area db (lat p) (lng p) (RISK_PREDICTION_RADIUS cfg) (now - 365 * seconds_per_day) = Inr (incs p) \<and>
      get_panic_alerts_in_area db (lat p) (lng p) (RISK_PREDICTION_RADIUS cfg) (now - 365 * seconds_per_day) = Inr (als p)"
  shows "calculate_point_risk incidents panic_alerts = spec_point_risk incidents panic_alerts
    \<and> (let all_points = [start_point r] @ field_get (waypoints r) [] @ [end_point r];
           (score, stored) = predict_route_risk db geodesic cfg now r time_of_day user_id
       in pr_base_risk stored =
            min 80 (sum_list (map (\<lambda>p. spec_point_risk (incs p) (als p)) all_points)
                      / real (length all_points))
        \<and> pr_risk_score stored =
            min 100 (pr_base_risk stored * get_time_risk_modifier time_of_day
                       * get_route_characteristics_modifier geodesic r)
        \<and> score = py_round2 (pr_risk_score stored))"
proof -
  let ?pts = "[start_point r] @ field_get (waypoints r) [] @ [end_point r]"
  have "historical_loop db cfg now ?pts (0, 0) =
      Inr (0 + sum_list (map (\<lambda>p. calculate_point_risk (incs p) (als p)) ?pts), 0 + length ?pts)"
    using assms by (rule historical_loop_ok)
  then have base: "calculate_historical_risk db cfg now (start_point r) (end_point r) (field_get (waypoints r) [])
      = min 80 (sum_list (map (\<lambda>p. spec_point_risk (incs p) (als p)) ?pts) / real (length ?pts))"
    by (simp add: calculate_historical_risk_def calculate_point_risk_spec)
  show ?thesis
    using base by (simp add: calculate_point_risk_spec predict_route_risk_def Let_def)
qed

lemma example_point_risk: "spec_point_risk
    [\<lparr> inc_coordinates = c, inc_type = Some ''crime'', inc_severity = Some ''high'', inc_createdAt = t \<rparr>]
    [a] = 52"
  by (simp add: spec_point_risk_def spec_incident_weight_def spec_type_weight_def
      spec_severity_multiplier_def field_get_def)

theorem C6_risk_formula_witness:
  "fst (predict_route_risk example_gateway example_geodesic default_config 0 example_route ''night'' None) = 68.55"
proof -
  let ?incs = "\<lambda>p. [\<lparr> inc_coordinates = Some (lng p, lat p), inc_type = Some ''crime'',
               inc_severity = Some ''high'', inc_createdAt = Some (Instant (0 - 365 * seconds_per_day)) \<rparr>]"
  let ?als = "\<lambda>p. [\<lparr> pa_coordinates = Some (lng p, lat p), pa_timestamp = Some (Instant (0 - 365 * seconds_per_day)) \<rparr>]"
  have h: "\<forall>p \<in> set ([start_point example_route] @ field_get (waypoints example_route) [] @ [end_point example_route]).
      get_incidents_in_area example_gateway (lat p) (lng p) (RISK_PREDICTION_RADIUS default_config) (0 - 365 * seconds_per_day) = Inr (?incs p) \<and>
      get_panic_alerts_in_area example_gateway (lat p) (lng p) (RISK_PREDICTION_RADIUS default_config) (0 - 365 * seconds_per_day) = Inr (?als p)"
    by (simp add: example_gateway_def)
  have wp: "field_get (waypoints example_route) [] = []"
    by (simp add: example_route_def field_get_def)
  have rm: "get_route_characteristics_modifier example_geodesic example_route = 1014 / 10 ^ 3"
    by (simp add: get_route_characteristics_modifier_def example_geodesic_def example_route_def field_get_def Let_def)
  have tm: "get_time_risk_modifier ''night'' = 13 / 10"
    by (simp add: get_time_risk_modifier_def time_modifiers_def dict_get_def)
  have r: "py_round2 (52 * 1.3 * 1.014) = 68.55"
    by (simp add: py_round2_def py_round_def Let_def)
  obtain score stored where ps:
    "predict_route_risk example_gateway example_geodesic default_config 0 example_route ''night'' None
       = (score, stored)"
    by (cases "predict_route_risk example_gateway example_geodesic default_config 0 example_route ''night'' None")
  from C6_risk_formula [OF h, of "[]" "[]" example_geodesic "''night''" None] ps
  have b: "pr_base_risk stored = 52"
    and s: "pr_risk_score stored = min 100 (pr_base_risk stored * (13 / 10) * (1014 / 10 ^ 3))"
    and f: "score = py_round2 (pr_risk_score stored)"
    by (simp_all add: Let_def example_point_risk rm tm wp)
  have "pr_risk_score stored = 52 * 1.3 * 1.014" unfolding s b by simp
  with f r ps show ?thesis by simp
qed

lemma route_modifier_no_waypoints:
  "field_get (waypoints r) [] = [] \<Longrightarrow>
   0 \<le> geodesic (lat (start_point r), lng (start_point r)) (lat (end_point r), lng (end_point r)) \<Longrightarrow>
   get_route_characteristics_modifier geodesic r =
     min 1.5 (1 + geodesic (lat (start_point r), lng (start_point r)) (lat (end_point r), lng (end_point r)) / 1000)"
  by (simp add: get_route_characteristics_modifier_def Let_def)

text \<open>
  Claim C4, as the code has it. For a route without waypoints whose start and end points
  have no incidents and no panic alerts in the query radius, the base (historical) risk is
  5, the floor of the per-point risk, and not 20 (20 is returned only when the gateway
  raises). With \<open>time_of_day = 'day'\<close> the multiplier is 1.0 and the returned score is
  \<open>5 * min(1.5, 1 + distance_km / 1000)\<close> rounded to two decimals, between 5 and 7.5.
\<close>

theorem C4_no_history_score:
  assumes wp: "field_get (waypoints r) [] = []"
    and inc: "\<forall>p \<in> {start_point r, end_point r}.
      get_incidents_in_area db (lat p) (lng p) (RISK_PREDICTION_RADIUS cfg) (now - 365 * seconds_per_day) = Inr [] \<and>
      get_panic_alerts_in_area db (lat p) (lng p) (RISK_PREDICTION_RADIUS cfg) (now - 365 * seconds_per_day) = Inr []"
    and d: "geodesic (lat (start_point r), lng (start_point r)) (lat (end_point r), lng (end_point r)) = distance"
    and d0: "0 \<le> distance"
  shows "calculate_historical_risk db cfg now (start_point r) (end_point r) [] = 5
    \<and> get_time_risk_modifier ''day'' = 1
    \<and> fst (predict_route_risk db geodesic cfg now r ''day'' user_id)
         = py_round2 (5 * min 1.5 (1 + distance / 1000))
    \<and> 5 \<le> fst (predict_route_risk db geodesic cfg now r ''day'' user_id)
    \<and> fst (predict_route_risk db geodesic cfg now r ''day'' user_id) \<le> 7.5"
proof -
  let ?pts = "[start_point r] @ [] @ [end_point r]"
  have "\<forall>p \<in> set ?pts.
      get_incidents_in_area db (lat p) (lng p) (RISK_PREDICTION_RADIUS cfg) (now - 365 * seconds_per_day) = Inr ((\<lambda>p. []) p) \<and>
      get_panic_alerts_in_area db (lat p) (lng p) (RISK_PREDICTION_RADIUS cfg) (now - 365 * seconds_per_day) = Inr ((\<lambda>p. []) p)"
    using inc by simp
  then have "historical_loop db cfg now ?pts (0, 0) =
      Inr (0 + sum_list (map (\<lambda>p. calculate_point_risk [] []) ?pts), 0 + length ?pts)"
    by (rule historical_loop_ok)
  then have base: "calculate_historical_risk db cfg now (start_point r) (end_point r) [] = 5"
    by (simp add: calculate_historical_risk_def calculate_point_risk_empty)
  have tm: "get_time_risk_modifier ''day'' = 1"
    by (simp add: get_time_risk_modifier_def time_modifiers_def dict_get_def)
  have rm: "get_route_characteristics_modifier geodesic r = min 1.5 (1 + distance / 1000)"
    using route_modifier_no_waypoints [OF wp, of geodesic] d d0 by simp
  have "min 1.5 (1 + distance / 1000) \<le> 1.5" by (rule min.cobounded1)
  then have le: "5 * min 1.5 (1 + distance / 1000) \<le> 100" by simp
  have score: "fst (predict_route_risk db geodesic cfg now r ''day'' user_id)
         = py_round2 (5 * min 1.5 (1 + distance / 1000))"
    using le by (simp add: predict_route_risk_def Let_def wp base tm rm)
  have "py_round2 5 \<le> py_round2 (5 * min 1.5 (1 + distance / 1000))"
    using d0 by (intro py_round2_mono) simp
  moreover have "py_round2 (5 * min 1.5 (1 + distance / 1000)) \<le> py_round2 7.5"
  proof (rule py_round2_mono)
    have "min 1.5 (1 + distance / 1000) \<le> 1.5" by (rule min.cobounded1)
    then show "5 * min 1.5 (1 + distance / 1000) \<le> 7.5" by simp
  qed
  moreover have "py_round2 5 = 5" "py_round2 7.5 = 7.5"
    by (simp_all add: py_round2_def py_round_def Let_def)
  ultimately show ?thesis using base tm score by simp
qed

theorem C4_no_history_score_witness:
  "calculate_historical_risk empty_gateway default_config 0
      (start_point example_route) (end_point example_route) [] = 5
   \<and> fst (predict_route_risk empty_gateway example_geodesic default_config 0 example_route ''day'' None)
       = py_round2 (5 * min 1.5 (1 + 14 / 1000))"
proof -
  have wp: "field_get (waypoints example_route) [] = []"
    by (simp add: example_route_def field_get_def)
  have inc: "\<forall>p \<in> {start_point example_route, end_point example_route}.
      get_incidents_in_area empty_gateway (lat p) (lng p) (RISK_PREDICTION_RADIUS default_config) (0 - 365 * seconds_per_day) = Inr [] \<and>
      get_panic_alerts_in_area empty_gateway (lat p) (lng p) (RISK_PREDICTION_RADIUS default_config) (0 - 365 * seconds_per_day) = Inr []"
    by (simp add: empty_gateway_def)
  have d: "example_geodesic (lat (start_point example_route), lng (start_point example_route))
             (lat (end_point example_route), lng (end_point example_route)) = 14"
    by (simp add: example_geodesic_def)
  have d0: "(0::real) \<le> 14" by simp
  from C4_no_history_score [where r = example_route and geodesic = example_geodesic and db = empty_gateway
      and cfg = default_config and now = 0 and distance = 14 and user_id = None, OF wp inc d d0]
  show ?thesis by simp
qed

text \<open>
  The claim as worded (base risk 20, score about 20.0) fails on an empty data store: the
  route of the repository's test, 14 km long, gets base risk 5 and score 5.07.
\<close>

theorem C4_base_risk_counterexample:
  "calculate_historical_risk empty_gateway default_config 0
      (start_point example_route) (end_point example_route) [] = 5
   \<and> calculate_historical_risk empty_gateway default_config 0
      (start_point example_route) (end_point example_route) [] \<noteq> 20
   \<and> fst (predict_route_risk empty_gateway example_geodesic default_config 0 example_route ''day'' None)
       = 5.07"
proof -
  have base: "calculate_historical_risk empty_gateway default_config 0
      (start_point example_route) (end_point example_route) [] = 5"
    by (simp add: calculate_historical_risk_def empty_gateway_def calculate_point_risk_empty)
  have rm: "get_route_characteristics_modifier example_geodesic example_route = 1014 / 10 ^ 3"
    by (simp add: get_route_characteristics_modifier_def example_geodesic_def example_route_def field_get_def Let_def)
  have tm: "get_time_risk_modifier ''day'' = 1"
    by (simp add: get_time_risk_modifier_def time_modifiers_def dict_get_def)
  have wp: "field_get (waypoints example_route) [] = []"
    by (simp add: example_route_def field_get_def)
  have r: "py_round2 (5 * (1014 / 10 ^ 3)) = 5.07"
    by (simp add: py_round2_def py_round_def Let_def)
  have "fst (predict_route_risk empty_gateway example_geodesic default_config 0 example_route ''day'' None) = 5.07"
    using r by (simp add: predict_route_risk_def Let_def wp base rm tm)
  with base show ?thesis by simp
qed

lemma predict_route_risk_mono:
  assumes d0: "0 \<le> geodesic (lat (start_point r), lng (start_point r)) (lat (end_point r), lng (end_point r))"
    and tm: "get_time_risk_modifier t1 \<le> get_time_risk_modifier t2"
  shows "fst (predict_route_risk db geodesic cfg now r t1 user_id)
       \<le> fst (predict_route_risk db geodesic cfg now r t2 user_id)"
proof -
  define base where "base = calculate_historical_risk db cfg now (start_point r) (end_point r) (field_get (waypoints r) [])"
  define rm where "rm = get_route_characteristics_modifier geodesic r"
  have b0: "0 \<le> base" using calculate_historical_risk_range [of db cfg now "start_point r" "end_point r" "field_get (waypoints r) []"]
    by (simp add: base_def)
  have r0: "0 \<le> rm" using route_modifier_range [where geodesic = geodesic and r = r, OF d0] by (simp add: rm_def)
  have "base * get_time_risk_modifier t1 \<le> base * get_time_risk_modifier t2"
    using tm b0 by (rule mult_left_mono)
  then have "base * get_time_risk_modifier t1 * rm \<le> base * get_time_risk_modifier t2 * rm"
    using r0 by (rule mult_right_mono)
  then have "min 100 (base * get_time_risk_modifier t1 * rm) \<le> min 100 (base * get_time_risk_modifier t2 * rm)"
    by simp
  then have "py_round2 (min 100 (base * get_time_risk_modifier t1 * rm))
      \<le> py_round2 (min 100 (base * get_time_risk_modifier t2 * rm))"
    by (rule py_round2_mono)
  then show ?thesis
    by (simp add: predict_route_risk_def Let_def base_def rm_def)
qed

lemma time_modifier_values:
  "get_time_risk_modifier ''morning'' = 0.8"
  "get_time_risk_modifier ''afternoon'' = 0.9"
  "get_time_risk_modifier ''evening'' = 1.1"
  "get_time_risk_modifier ''night'' = 1.3"
  "get_time_risk_modifier ''late_night'' = 1.5"
  by (simp_all add: get_time_risk_modifier_def time_modifiers_def dict_get_def)

text \<open>
  Claim C7. The multipliers of morning, afternoon, evening, night and late_night are
  0.8, 0.9, 1.1, 1.3 and 1.5, and for a fixed route, user id, clock reading and data store
  the returned score does not decrease along that order. The geodesic distance of the two
  end points is taken to be non-negative, as a distance is.
\<close>

theorem C7_time_of_day_monotone:
  assumes d0: "0 \<le> geodesic (lat (start_point r), lng (start_point r)) (lat (end_point r), lng (end_point r))"
  shows "map get_time_risk_modifier [''morning'', ''afternoon'', ''evening'', ''night'', ''late_night'']
           = [0.8, 0.9, 1.1, 1.3, 1.5]
    \<and> fst (predict_route_risk db geodesic cfg now r ''morning'' user_id)
        \<le> fst (predict_route_risk db geodesic cfg now r ''afternoon'' user_id)
    \<and> fst (predict_route_risk db geodesic cfg now r ''afternoon'' user_id)
        \<le> fst (predict_route_risk db geodesic cfg now r ''evening'' user_id)
    \<and> fst (predict_route_risk db geodesic cfg now r ''evening'' user_id)
        \<le> fst (predict_route_risk db geodesic cfg now r ''night'' user_id)
    \<and> fst (predict_route_risk db geodesic cfg now r ''night'' user_id)
        \<le> fst (predict_route_risk db geodesic cfg now r ''late_night'' user_id)"
proof -
  have "fst (predict_route_risk db geodesic cfg now r ''morning'' user_id)
        \<le> fst (predict_route_risk db geodesic cfg now r ''afternoon'' user_id)"
    by (rule predict_route_risk_mono [where geodesic = geodesic and r = r, OF d0]) (simp add: time_modifier_values)
  moreover have "fst (predict_route_risk db geodesic cfg now r ''afternoon'' user_id)
        \<le> fst (predict_route_risk db geodesic cfg now r ''evening'' user_id)"
    by (rule predict_route_risk_mono [where geodesic = geodesic and r = r, OF d0]) (simp add: time_modifier_values)
  moreover have "fst (predict_route_risk db geodesic cfg now r ''evening'' user_id)
        \<le> fst (predict_route_risk db geodesic cfg now r ''night'' user_id)"
    by (rule predict_route_risk_mono [where geodesic = geodesic and r = r, OF d0]) (simp add: time_modifier_values)
  moreover have "fst (predict_route_risk db geodesic cfg now r ''night'' user_id)
        \<le> fst (predict_route_risk db geodesic cfg now r ''late_night'' user_id)"
    by (rule predict_route_risk_mono [where geodesic = geodesic and r = r, OF d0]) (simp add: time_modifier_values)
  ultimately show ?thesis by (simp add: time_modifier_values)
qed

theorem C7_time_of_day_monotone_witness:
  "fst (predict_route_risk example_gateway example_geodesic default_config 0 example_route ''morning'' None)
     \<le> fst (predict_route_risk example_gateway example_geodesic default_config 0 example_route ''late_night'' None)"
proof -
  have d0: "0 \<le> example_geodesic (lat (start_point example_route), lng (start_point example_route))
             (lat (end_point example_route), lng (end_point example_route))"
    by (simp add: example_geodesic_def)
  from C7_time_of_day_monotone [where geodesic = example_geodesic and r = example_route
      and db = example_gateway and cfg = default_config and now = 0 and user_id = None, OF d0]
  show ?thesis by linarith
qed

section \<open>Verification: anomaly engine\<close>

lemma foldl_max_Max: "foldl max x xs = Max (set (x # xs))"
proof (induction xs arbitrary: x)
  case Nil
  then show ?case by simp
next
  case (Cons y ys)
  have "foldl max x (y # ys) = foldl max (max x y) ys" by simp
  also have "\<dots> = Max (set (max x y # ys))" by (rule Cons.IH)
  also have "\<dots> = Max (set (x # y # ys))"
    by (cases "ys = []") (simp_all add: max.assoc)
  finally show ?case .
qed

lemma py_max_exceeds:
  "xs \<noteq> [] \<Longrightarrow> \<exists>m. py_max xs = Inr m \<and> (m > t \<longleftrightarrow> (\<exists>x \<in> set xs. x > t))"
proof (cases xs)
  case Nil
  assume "xs \<noteq> []"
  with Nil show ?thesis by simp
next
  case (Cons y ys)
  have "Max (set (y # ys)) > t \<longleftrightarrow> (\<exists>x \<in> set (y # ys). x > t)"
    by (rule Max_gr_iff) simp_all
  with Cons show ?thesis by (simp add: foldl_max_Max del: set_simps)
qed

lemma set_speed_changes:
  "set (speed_changes speeds) = {\<bar>speeds ! Suc i - speeds ! i\<bar> | i. Suc i < length speeds}"
proof (induction speeds rule: speed_changes.induct)
  case (1 a b rest)
  have "{\<bar>(a # b # rest) ! Suc i - (a # b # rest) ! i\<bar> | i. Suc i < length (a # b # rest)}
      = insert \<bar>b - a\<bar> {\<bar>(b # rest) ! Suc i - (b # rest) ! i\<bar> | i. Suc i < length (b # rest)}"
    (is "?L = insert _ ?R")
  proof (rule set_eqI)
    fix v
    show "v \<in> ?L \<longleftrightarrow> v \<in> insert \<bar>b - a\<bar> ?R"
    proof
      assume "v \<in> ?L"
      then obtain i where i: "Suc i < length (a # b # rest)"
        and v: "v = \<bar>(a # b # rest) ! Suc i - (a # b # rest) ! i\<bar>" by blast
      show "v \<in> insert \<bar>b - a\<bar> ?R"
      proof (cases i)
        case 0
        with v show ?thesis by simp
      next
        case (Suc j)
        with i v have "Suc j < length (b # rest)" "v = \<bar>(b # rest) ! Suc j - (b # rest) ! j\<bar>"
          by simp_all
        then show ?thesis by blast
      qed
    next
      assume "v \<in> insert \<bar>b - a\<bar> ?R"
      then consider "v = \<bar>b - a\<bar>" | "v \<in> ?R" by blast
      then show "v \<in> ?L"
      proof cases
        case 1
        then have "Suc 0 < length (a # b # rest) \<and> v = \<bar>(a # b # rest) ! Suc 0 - (a # b # rest) ! 0\<bar>"
          by simp
        then show ?thesis by blast
      next
        case 2
        then obtain j where "Suc j < length (b # rest)" "v = \<bar>(b # rest) ! Suc j - (b # rest) ! j\<bar>"
          by blast
        then have "Suc (Suc j) < length (a # b # rest) \<and>
            v = \<bar>(a # b # rest) ! Suc (Suc j) - (a # b # rest) ! Suc j\<bar>" by simp
        then show ?thesis by blast
      qed
    qed
  qed
  with 1 show ?case by simp
qed simp_all

text \<open>
  Claim C8, as the code has it. The speed sub-detector first drops the calculated speeds
  that are not positive (the first point of a sequence always has speed 0). On the speeds
  that remain it fires \<open>excessive_speed\<close> (0.9) if one exceeds the configured threshold;
  otherwise \<open>unusual_speed\<close> (0.8) if one exceeds 1.5 times the 99th percentile of the
  profile; otherwise \<open>sudden_speed_change\<close> (0.7) if two neighbours in that list of positive
  speeds differ by more than 50 km/h; otherwise it does not fire (confidence 0.0).
\<close>

theorem C8_speed_detector:
  "(let speeds = filter (\<lambda>s. s > 0) (map pp_calculated_speed processed_data);
        result = detect_speed_anomaly cfg processed_data user_profile
    in (anomaly_type result, confidence result, is_anomaly result) =
       (if \<exists>s \<in> set speeds. s > MOVEMENT_SPEED_THRESHOLD cfg
        then (Some ''excessive_speed'', 0.9, True)
        else if \<exists>s \<in> set speeds. s > mp_speed_percentile_99 user_profile * 1.5
        then (Some ''unusual_speed'', 0.8, True)
        else if \<exists>i. Suc i < length speeds \<and> \<bar>speeds ! Suc i - speeds ! i\<bar> > 50
        then (Some ''sudden_speed_change'', 0.7, True)
        else (None, 0, False)))"
proof -
  define speeds where "speeds = filter (\<lambda>s. s > 0) (map pp_calculated_speed processed_data)"
  define result where "result = detect_speed_anomaly cfg processed_data user_profile"
  define thr where "thr = MOVEMENT_SPEED_THRESHOLD cfg"
  define p99 where "p99 = mp_speed_percentile_99 user_profile * 1.5"
  have goal: "(anomaly_type result, confidence result, is_anomaly result) =
       (if \<exists>s \<in> set speeds. s > thr then (Some ''excessive_speed'', 0.9, True)
        else if \<exists>s \<in> set speeds. s > p99 then (Some ''unusual_speed'', 0.8, True)
        else if \<exists>i. Suc i < length speeds \<and> \<bar>speeds ! Suc i - speeds ! i\<bar> > 50
        then (Some ''sudden_speed_change'', 0.7, True)
        else (None, 0, False))"
  proof (cases "speeds = []")
    case True
    then have "result = no_anomaly"
      by (simp add: result_def detect_speed_anomaly_def speeds_def)
    with True show ?thesis by (simp add: no_anomaly_def)
  next
    case False
    obtain m where m: "py_max speeds = Inr m"
      and mt: "m > thr \<longleftrightarrow> (\<exists>x \<in> set speeds. x > thr)"
      using py_max_exceeds [OF False, of thr] by blast
    have mp: "m > p99 \<longleftrightarrow> (\<exists>x \<in> set speeds. x > p99)"
      using py_max_exceeds [OF False, of p99] m by auto
    show ?thesis
    proof (cases "m > thr")
      case True
      then have "result = \<lparr> is_anomaly = True, confidence = 0.9,
          anomaly_type = Some ''excessive_speed'', details = Some (Speed_exceeds_threshold m) \<rparr>"
        using False m by (simp add: result_def detect_speed_anomaly_def speeds_def [symmetric] thr_def)
      with True mt show ?thesis by simp
    next
      case nt: False
      show ?thesis
      proof (cases "m > p99")
        case True
        then have "result = \<lparr> is_anomaly = True, confidence = 0.8,
            anomaly_type = Some ''unusual_speed'', details = Some (Speed_unusual m) \<rparr>"
          using False m nt
          by (simp add: result_def detect_speed_anomaly_def speeds_def [symmetric] thr_def p99_def)
        with True nt mt mp show ?thesis by simp
      next
        case np: False
        show ?thesis
        proof (cases "speed_changes speeds = []")
          case True
          then have r: "result = no_anomaly"
            using False m nt np
            by (simp add: result_def detect_speed_anomaly_def speeds_def [symmetric] thr_def p99_def)
          from True have "set (speed_changes speeds) = {}" by simp
          then have "\<not> (\<exists>i. Suc i < length speeds \<and> \<bar>speeds ! Suc i - speeds ! i\<bar> > 50)"
            unfolding set_speed_changes by blast
          with r nt np mt mp show ?thesis by (simp add: no_anomaly_def)
        next
          case ne: False
          obtain c where c: "py_max (speed_changes speeds) = Inr c"
            and c50: "c > 50 \<longleftrightarrow> (\<exists>x \<in> set (speed_changes speeds). x > 50)"
            using py_max_exceeds [OF ne, of 50] by blast
          have ex: "(\<exists>x \<in> set (speed_changes speeds). x > 50)
              \<longleftrightarrow> (\<exists>i. Suc i < length speeds \<and> \<bar>speeds ! Suc i - speeds ! i\<bar> > 50)"
            unfolding set_speed_changes by blast
          show ?thesis
          proof (cases "c > 50")
            case True
            then have "result = \<lparr> is_anomaly = True, confidence = 0.7,
                anomaly_type = Some ''sudden_speed_change'', details = Some (Sudden_speed_change c) \<rparr>"
              using False m nt np ne c
              by (simp add: result_def detect_speed_anomaly_def speeds_def [symmetric] thr_def p99_def)
            with True nt np mt mp c50 ex show ?thesis by simp
          next
            case nc: False
            then have "result = no_anomaly"
              using False m nt np ne c
              by (simp add: result_def detect_speed_anomaly_def speeds_def [symmetric] thr_def p99_def)
            with nc nt np mt mp c50 ex show ?thesis by (simp add: no_anomaly_def)
          qed
        qed
      qed
    qed
  qed
  then show ?thesis
    by (simp add: Let_def speeds_def result_def thr_def p99_def)
qed

theorem C8_speed_detector_witness:
  "detect_speed_anomaly default_config
      [example_processed 36000 0, example_processed 36060 10, example_processed 36120 70]
      get_default_profile
   = \<lparr> is_anomaly = True, confidence = 0.7, anomaly_type = Some ''sudden_speed_change'',
       details = Some (Sudden_speed_change 60) \<rparr>"
proof -
  have "\<exists>i. Suc i < length [10, 70 :: real] \<and> \<bar>[10, 70 :: real] ! Suc i - [10, 70] ! i\<bar> > 50"
    by (rule exI [of _ 0]) simp
  with C8_speed_detector [of "[example_processed 36000 0, example_processed 36060 10, example_processed 36120 70]"
      default_config get_default_profile]
  have "anomaly_type (detect_speed_anomaly default_config
      [example_processed 36000 0, example_processed 36060 10, example_processed 36120 70]
      get_default_profile) = Some ''sudden_speed_change''"
    by (simp add: Let_def example_processed_def default_config_def get_default_profile_def)
  then show ?thesis
    by (simp add: detect_speed_anomaly_def example_processed_def default_config_def
        get_default_profile_def no_anomaly_def Let_def)
qed

text \<open>
  The claim as worded fails: in the enriched sequence with speeds 0 and 60 the consecutive
  delta is 60 km/h and no speed exceeds a threshold, yet the sub-detector does not fire,
  because the delta is taken after the zero speed has been dropped.
\<close>

theorem C8_consecutive_delta_counterexample:
  "\<bar>pp_calculated_speed ([example_processed 36000 0, example_processed 36060 60] ! 1)
      - pp_calculated_speed ([example_processed 36000 0, example_processed 36060 60] ! 0)\<bar> > 50
   \<and> \<not> pp_calculated_speed (example_processed 36060 60) > MOVEMENT_SPEED_THRESHOLD default_config
   \<and> \<not> pp_calculated_speed (example_processed 36060 60) > 1.5 * mp_speed_percentile_99 get_default_profile
   \<and> detect_speed_anomaly default_config
        [example_processed 36000 0, example_processed 36060 60] get_default_profile = no_anomaly
   \<and> confidence (detect_speed_anomaly default_config
        [example_processed 36000 0, example_processed 36060 60] get_default_profile) = 0
   \<and> anomaly_type (detect_speed_anomaly default_config
        [example_processed 36000 0, example_processed 36060 60] get_default_profile)
       \<noteq> Some ''sudden_speed_change''"
  by (simp add: detect_speed_anomaly_def example_processed_def default_config_def
      get_default_profile_def no_anomaly_def Let_def)

lemma dt_hour_range: "0 \<le> dt_hour t \<and> dt_hour t < 24"
  by (simp add: dt_hour_def)

lemma dt_hour_window:
  "(2 \<le> dt_hour t \<and> dt_hour t \<le> 5) \<longleftrightarrow> (7200 \<le> dt_wall t mod 86400 \<and> dt_wall t mod 86400 < 21600)"
proof -
  define h where "h = (dt_wall t div 3600) mod 24"
  define r where "r = dt_wall t mod 3600"
  have split: "dt_wall t mod 86400 = 3600 * h + r"
    using zmod_zmult2_eq [of 24 "dt_wall t" 3600] by (simp add: h_def r_def)
  have r: "0 \<le> r" "r < 3600" by (simp_all add: r_def)
  have "(2 \<le> h \<and> h \<le> 5) \<longleftrightarrow> (7200 \<le> 3600 * h + r \<and> 3600 * h + r < 21600)"
    using r by arith
  then show ?thesis by (simp add: dt_hour_def h_def [symmetric] split)
qed

text \<open>
  Claim C9. On a non-empty sequence the time sub-detector fires \<open>unusual_time\<close> with
  confidence 0.4 exactly when the hour of the first point's time stamp is 2, 3, 4 or 5, that
  is when its wall-clock reading is from 02:00:00 to 05:59:59; hours 2 and 5 trigger it,
  hours 1 and 6 do not.
\<close>

theorem C9_unusual_time_hours:
  "detect_time_anomaly (first_point # rest) user_profile =
     (if dt_hour (pp_timestamp first_point) \<in> {2, 3, 4, 5}
      then unusual_time_verdict (dt_hour (pp_timestamp first_point)) else no_anomaly)
   \<and> (is_anomaly (detect_time_anomaly (first_point # rest) user_profile)
        \<longleftrightarrow> 7200 \<le> dt_wall (pp_timestamp first_point) mod 86400
            \<and> dt_wall (pp_timestamp first_point) mod 86400 < 21600)
   \<and> (dt_hour (pp_timestamp first_point) = 2 \<or> dt_hour (pp_timestamp first_point) = 5
        \<longrightarrow> anomaly_type (detect_time_anomaly (first_point # rest) user_profile) = Some ''unusual_time''
          \<and> confidence (detect_time_anomaly (first_point # rest) user_profile) = 0.4)
   \<and> (dt_hour (pp_timestamp first_point) = 1 \<or> dt_hour (pp_timestamp first_point) = 6
        \<longrightarrow> detect_time_anomaly (first_point # rest) user_profile = no_anomaly
          \<and> confidence (detect_time_anomaly (first_point # rest) user_profile) = 0)"
proof -
  define h where "h = dt_hour (pp_timestamp first_point)"
  have in_set: "h \<in> {2, 3, 4, 5} \<longleftrightarrow> 2 \<le> h \<and> h \<le> 5" by auto
  have eq: "detect_time_anomaly (first_point # rest) user_profile =
     (if h \<in> {2, 3, 4, 5} then unusual_time_verdict h else no_anomaly)"
    unfolding in_set by (simp add: detect_time_anomaly_def Let_def h_def unusual_time_verdict_def)
  have win: "is_anomaly (detect_time_anomaly (first_point # rest) user_profile)
        \<longleftrightarrow> 7200 \<le> dt_wall (pp_timestamp first_point) mod 86400
            \<and> dt_wall (pp_timestamp first_point) mod 86400 < 21600"
    unfolding eq in_set h_def dt_hour_window [symmetric]
    by (simp add: unusual_time_verdict_def no_anomaly_def)
  show ?thesis
    using eq win unfolding h_def [symmetric]
    by (auto simp: unusual_time_verdict_def no_anomaly_def)
qed

theorem C9_unusual_time_hours_witness:
  "anomaly_type (detect_time_anomaly [example_processed 7200 0, example_processed 7260 0] get_default_profile)
      = Some ''unusual_time''
   \<and> anomaly_type (detect_time_anomaly [example_processed 21599 0, example_processed 21660 0] get_default_profile)
      = Some ''unusual_time''
   \<and> detect_time_anomaly [example_processed 7199 0, example_processed 7260 0] get_default_profile = no_anomaly
   \<and> detect_time_anomaly [example_processed 21600 0, example_processed 21660 0] get_default_profile = no_anomaly"
proof -
  have h: "dt_hour (pp_timestamp (example_processed 7200 0)) = 2"
    "dt_hour (pp_timestamp (example_processed 21599 0)) = 5"
    "dt_hour (pp_timestamp (example_processed 7199 0)) = 1"
    "dt_hour (pp_timestamp (example_processed 21600 0)) = 6"
    by (simp_all add: dt_hour_def example_processed_def)
  from C9_unusual_time_hours [of "example_processed 7200 0" "[example_processed 7260 0]" get_default_profile]
    C9_unusual_time_hours [of "example_processed 21599 0" "[example_processed 21660 0]" get_default_profile]
    C9_unusual_time_hours [of "example_processed 7199 0" "[example_processed 7260 0]" get_default_profile]
    C9_unusual_time_hours [of "example_processed 21600 0" "[example_processed 21660 0]" get_default_profile]
  show ?thesis by (simp add: h unusual_time_verdict_def no_anomaly_def)
qed

text \<open>
  Claim C10. On a sequence of length 0 or 1 \<open>detect_anomalies\<close> returns the
  insufficient-data verdict and leaves the engine as it was: no profile is cached, and no
  call to the gateway (neither the history read nor the store) is made, whatever the
  gateway and the cache hold.
\<close>

theorem C10_insufficient_data:
  assumes "length location_data < 2"
  shows "detect_anomalies db geodesic cfg now self user_id location_data =
     (\<lparr> is_anomaly = False, confidence = 0.0, anomaly_type = None,
        details = Some Insufficient_data \<rparr>, self)"
  using assms by (simp add: detect_anomalies_def detect_anomalies_body_def)

theorem C10_insufficient_data_witness:
  "detect_anomalies failing_history example_geodesic default_config 0 empty_detector ''user''
      [example_telemetry 28.6139 77.2090 36000]
   = (\<lparr> is_anomaly = False, confidence = 0.0, anomaly_type = None,
        details = Some Insufficient_data \<rparr>, empty_detector)
   \<and> db_calls (snd (detect_anomalies failing_history example_geodesic default_config 0 empty_detector
        ''user'' [])) = []"
proof -
  have one: "length [example_telemetry 28.6139 77.2090 36000] < 2" by simp
  have none: "length ([] :: telemetry_point list) < 2" by simp
  from C10_insufficient_data [OF one, of failing_history example_geodesic default_config 0 empty_detector "''user''"]
    C10_insufficient_data [OF none, of failing_history example_geodesic default_config 0 empty_detector "''user''"]
  show ?thesis by (simp add: empty_detector_def)
qed

lemma py_max_by_member: "py_max_by key (x # xs) = Inr y \<Longrightarrow> y \<in> set (x # xs)"
proof -
  have "foldl (\<lambda>best y. if key best < key y then y else best) x xs \<in> set (x # xs)"
  proof (induction xs arbitrary: x)
    case Nil
    then show ?case by simp
  next
    case (Cons z zs)
    from Cons.IH [of "if key x < key z then z else x"] show ?case by auto
  qed
  then show "py_max_by key (x # xs) = Inr y \<Longrightarrow> y \<in> set (x # xs)" by auto
qed

lemma detect_speed_anomaly_confidence:
  "confidence (detect_speed_anomaly cfg processed_data user_profile) \<in> {0, 0.7, 0.8, 0.9}"
  by (simp add: detect_speed_anomaly_def no_anomaly_def detector_error_def Let_def
      split: sum.splits)

lemma detect_pattern_anomaly_confidence:
  "confidence (detect_pattern_anomaly processed_data user_profile) \<in> {0, 0.6}"
  by (simp add: detect_pattern_anomaly_def no_anomaly_def Let_def)

lemma detect_location_anomaly_confidence:
  "confidence (detect_location_anomaly geodesic processed_data user_profile) \<in> {0, 0.5}"
  by (simp add: detect_location_anomaly_def no_anomaly_def Let_def)

lemma detect_time_anomaly_confidence:
  "confidence (detect_time_anomaly processed_data user_profile) \<in> {0, 0.4}"
  by (simp add: detect_time_anomaly_def no_anomaly_def detector_error_def Let_def
      split: list.splits)

lemma detect_anomalies_body_confidence:
  assumes "detect_anomalies_body db geodesic cfg now self user_id location_data = (Inr v, self')"
  shows "confidence v \<in> {0, 0.4, 0.5, 0.6, 0.7, 0.8, 0.9}"
proof (cases "length location_data < 2")
  case True
  with assms show ?thesis by (auto simp: detect_anomalies_body_def)
next
  case False
  from assms False obtain processed_data where
    p: "process_location_data geodesic location_data = Inr processed_data"
    by (auto simp: detect_anomalies_body_def split: sum.splits)
  obtain user_profile self1 where
    g: "get_user_movement_profile db geodesic self user_id = (user_profile, self1)"
    by (cases "get_user_movement_profile db geodesic self user_id")
  let ?anomalies = "[detect_speed_anomaly cfg processed_data user_profile,
      detect_pattern_anomaly processed_data user_profile,
      detect_location_anomaly geodesic processed_data user_profile,
      detect_time_anomaly processed_data user_profile]"
  from assms False p g have "py_max_by confidence ?anomalies = Inr v"
    by (simp add: detect_anomalies_body_def Let_def split: sum.splits)
  then have "v \<in> set ?anomalies" by (rule py_max_by_member)
  then consider "v = detect_speed_anomaly cfg processed_data user_profile"
    | "v = detect_pattern_anomaly processed_data user_profile"
    | "v = detect_location_anomaly geodesic processed_data user_profile"
    | "v = detect_time_anomaly processed_data user_profile"
    by auto
  then show ?thesis
  proof cases
    case 1
    with detect_speed_anomaly_confidence [of cfg processed_data user_profile] show ?thesis by auto
  next
    case 2
    with detect_pattern_anomaly_confidence [of processed_data user_profile] show ?thesis by auto
  next
    case 3
    with detect_location_anomaly_confidence [of geodesic processed_data user_profile] show ?thesis by auto
  next
    case 4
    with detect_time_anomaly_confidence [of processed_data user_profile] show ?thesis by auto
  qed
qed

text \<open>
  Claim C1. \<open>detect_anomalies\<close> is a total function to one verdict: its confidence lies in
  [0, 1]; when its \<open>try\<close> block raises, the handler returns the non-anomalous verdict of
  confidence 0.0 and type \<open>error\<close> in place of the exception; when the block returns, that
  verdict is the result. (A failure inside a sub-detector, the profile lookup or the store
  never reaches the block: each has its own handler.)
\<close>

theorem C1_detect_anomalies_verdict:
  "0 \<le> confidence (fst (detect_anomalies db geodesic cfg now self user_id location_data))
   \<and> confidence (fst (detect_anomalies db geodesic cfg now self user_id location_data)) \<le> 1
   \<and> (\<forall>e self'. detect_anomalies_body db geodesic cfg now self user_id location_data = (Inl e, self')
        \<longrightarrow> fst (detect_anomalies db geodesic cfg now self user_id location_data)
              = \<lparr> is_anomaly = False, confidence = 0.0, anomaly_type = Some ''error'',
                  details = Some (Detection_error e) \<rparr>)
   \<and> (\<forall>v self'. detect_anomalies_body db geodesic cfg now self user_id location_data = (Inr v, self')
        \<longrightarrow> detect_anomalies db geodesic cfg now self user_id location_data = (v, self'))"
proof -
  obtain outcome self' where
    b: "detect_anomalies_body db geodesic cfg now self user_id location_data = (outcome, self')"
    by (cases "detect_anomalies_body db geodesic cfg now self user_id location_data")
  show ?thesis
  proof (cases outcome)
    case (Inl e)
    with b show ?thesis by (simp add: detect_anomalies_def)
  next
    case (Inr v)
    from b [unfolded Inr] have "confidence v \<in> {0, 0.4, 0.5, 0.6, 0.7, 0.8, 0.9}"
      by (rule detect_anomalies_body_confidence)
    then have "0 \<le> confidence v \<and> confidence v \<le> 1" by auto
    with b Inr show ?thesis by (simp add: detect_anomalies_def)
  qed
qed

text \<open>
  Two runs of the \<open>try\<close> block. A second point without \<open>lat\<close> raises KeyError before
  any call to the gateway. The specification's scenario, two points one minute and 2.5 km
  apart with a threshold of 100 km/h, gives \<open>excessive_speed\<close> with confidence 0.9: the
  default profile is cached after one history read, and the verdict is handed to the store.
\<close>

lemma example_body_fails:
  "detect_anomalies_body empty_history example_geodesic default_config 0 empty_detector ''user''
      [example_telemetry 28.6139 77.2090 36000,
       (example_telemetry 28.6200 77.2150 36060) \<lparr> tp_lat := None \<rparr>]
   = (Inl KeyError, empty_detector)"
  by (simp add: detect_anomalies_body_def process_location_data_def example_telemetry_def
      field_get_def Let_def)

lemma example_body_detects:
  "detect_anomalies_body empty_history (\<lambda>a b. 2.5) default_config 0 empty_detector ''user''
      [example_telemetry 28.6139 77.2090 36000, example_telemetry 28.6200 77.2150 36060]
   = (Inr \<lparr> is_anomaly = True, confidence = 0.9, anomaly_type = Some ''excessive_speed'',
        details = Some (Speed_exceeds_threshold 150) \<rparr>,
      \<lparr> user_profiles = [''user'' \<mapsto> get_default_profile],
        db_calls = [Get_user_location_history ''user'' 168,
          Store_anomaly_detection
            \<lparr> ar_user_id = ''user'',
              ar_location_data_sample =
                [example_telemetry 28.6139 77.2090 36000, example_telemetry 28.6200 77.2150 36060],
              ar_anomaly_result = \<lparr> is_anomaly = True, confidence = 0.9,
                anomaly_type = Some ''excessive_speed'',
                details = Some (Speed_exceeds_threshold 150) \<rparr>,
              ar_detection_timestamp = 0 \<rparr>] \<rparr>)"
  by (simp add: detect_anomalies_body_def process_location_data_def
      example_telemetry_def field_get_def Let_def dt_diff_def get_user_movement_profile_def
      empty_detector_def empty_history_def get_default_profile_def detect_speed_anomaly_def
      detect_pattern_anomaly_def detect_location_anomaly_def detect_time_anomaly_def
      default_config_def no_anomaly_def dt_hour_def store_anomaly_result_def)

theorem C1_detect_anomalies_verdict_witness:
  "fst (detect_anomalies empty_history example_geodesic default_config 0 empty_detector ''user''
      [example_telemetry 28.6139 77.2090 36000,
       (example_telemetry 28.6200 77.2150 36060) \<lparr> tp_lat := None \<rparr>])
   = \<lparr> is_anomaly = False, confidence = 0.0, anomaly_type = Some ''error'',
       details = Some (Detection_error KeyError) \<rparr>
   \<and> fst (detect_anomalies empty_history (\<lambda>a b. 2.5) default_config 0 empty_detector ''user''
      [example_telemetry 28.6139 77.2090 36000, example_telemetry 28.6200 77.2150 36060])
   = \<lparr> is_anomaly = True, confidence = 0.9, anomaly_type = Some ''excessive_speed'',
        details = Some (Speed_exceeds_threshold 150) \<rparr>"
proof -
  have 1: "fst (detect_anomalies empty_history example_geodesic default_config 0 empty_detector ''user''
      [example_telemetry 28.6139 77.2090 36000,
       (example_telemetry 28.6200 77.2150 36060) \<lparr> tp_lat := None \<rparr>])
   = \<lparr> is_anomaly = False, confidence = 0.0, anomaly_type = Some ''error'',
       details = Some (Detection_error KeyError) \<rparr>"
    using C1_detect_anomalies_verdict [of empty_history example_geodesic default_config 0 empty_detector
      "''user''" "[example_telemetry 28.6139 77.2090 36000,
       (example_telemetry 28.6200 77.2150 36060) \<lparr> tp_lat := None \<rparr>]"]
      example_body_fails
    by blast
  have 2: "fst (detect_anomalies empty_history (\<lambda>a b. 2.5) default_config 0 empty_detector ''user''
      [example_telemetry 28.6139 77.2090 36000, example_telemetry 28.6200 77.2150 36060])
   = \<lparr> is_anomaly = True, confidence = 0.9, anomaly_type = Some ''excessive_speed'',
        details = Some (Speed_exceeds_threshold 150) \<rparr>"
    using C1_detect_anomalies_verdict [of empty_history "\<lambda>a b. 2.5" default_config 0 empty_detector
      "''user''" "[example_telemetry 28.6139 77.2090 36000, example_telemetry 28.6200 77.2150 36060]"]
      example_body_detects
    by (metis fst_conv)
  from 1 2 show ?thesis by (rule conjI)
qed

section \<open>Verification: clustering\<close>

lemma find_nearby_filter:
  "find_nearby geodesic radius_km seed_point (enumerate n xs) (cluster, idxs) =
     (cluster \<lparr> cl_points := cl_points cluster @ filter (near geodesic radius_km seed_point) xs,
                cl_incident_count := cl_incident_count cluster
                   + int (length (filter (near geodesic radius_km seed_point) xs)) \<rparr>,
      idxs @ map fst (filter (\<lambda>(i, p). near geodesic radius_km seed_point p) (enumerate n xs)))"
proof (induction xs arbitrary: n cluster idxs)
  case Nil
  then show ?case by simp
next
  case (Cons x xs)
  show ?case
    by (simp add: Cons.IH near_def Let_def)
qed

lemma list_pop_append:
  "j < length ys \<Longrightarrow> list_pop j (ys @ zs) = list_pop j ys @ zs"
  by (simp add: list_pop_def)

lemma list_pop_last: "list_pop (length ys) (ys @ [y]) = ys"
  by (simp add: list_pop_def)

lemma length_list_pop_less: "j < length ys \<Longrightarrow> length (list_pop j ys) = length ys - 1"
  by (simp add: list_pop_def)

lemma foldl_pop_append:
  "sorted_wrt (>) js \<Longrightarrow> \<forall>j \<in> set js. j < length ys \<Longrightarrow>
   foldl (\<lambda>xs i. list_pop i xs) (ys @ zs) js = foldl (\<lambda>xs i. list_pop i xs) ys js @ zs"
proof (induction js arbitrary: ys)
  case Nil
  then show ?case by simp
next
  case (Cons j js)
  from Cons.prems have j: "j < length ys" and below: "\<forall>k \<in> set js. k < j"
    and sorted: "sorted_wrt (>) js" by auto
  have "\<forall>k \<in> set js. k < length (list_pop j ys)"
    using below j by (auto simp: length_list_pop_less)
  from Cons.IH [OF sorted this] j show ?case
    by (simp add: list_pop_append)
qed

lemma enumerated_indices:
  "sorted_wrt (<) (map fst (filter Q (enumerate n xs)))
   \<and> (\<forall>i \<in> set (map fst (filter Q (enumerate n xs))). n \<le> i \<and> i < n + length xs)"
proof -
  have "sorted_wrt (<) (map fst (enumerate n xs))"
    by (simp add: map_fst_enumerate)
  then have "sorted_wrt (\<lambda>a b. fst a < fst b) (enumerate n xs)"
    unfolding sorted_wrt_map .
  then have "sorted_wrt (\<lambda>a b. fst a < fst b) (filter Q (enumerate n xs))"
    by (rule sorted_wrt_filter)
  then have "sorted_wrt (<) (map fst (filter Q (enumerate n xs)))"
    unfolding sorted_wrt_map .
  moreover have "\<forall>i \<in> set (map fst (filter Q (enumerate n xs))). n \<le> i \<and> i < n + length xs"
    by (auto simp: in_set_enumerate_eq)
  ultimately show ?thesis by blast
qed

lemma remove_clustered_filter:
  "remove_clustered (map fst (filter (\<lambda>(i, p). P p) (enumerate 0 xs))) xs = filter (\<lambda>p. \<not> P p) xs"
proof (induction xs rule: rev_induct)
  case Nil
  then show ?case by (simp add: remove_clustered_def)
next
  case (snoc y ys)
  let ?js = "map fst (filter (\<lambda>(i, p). P p) (enumerate 0 ys))"
  have en: "enumerate 0 (ys @ [y]) = enumerate 0 ys @ [(length ys, y)]"
    by (simp add: enumerate_append_eq)
  have IH: "foldl (\<lambda>xs i. list_pop i xs) ys (rev ?js) = filter (\<lambda>p. \<not> P p) ys"
    using snoc.IH by (simp add: remove_clustered_def)
  show ?case
  proof (cases "P y")
    case True
    then show ?thesis
      by (simp add: remove_clustered_def en list_pop_last IH)
  next
    case False
    have "sorted_wrt (<) ?js" and bound: "\<forall>i \<in> set ?js. i < length ys"
      using enumerated_indices [of "\<lambda>(i, p). P p" 0 ys] by auto
    then have "sorted_wrt (>) (rev ?js)"
      by (simp add: sorted_wrt_rev)
    moreover have "\<forall>j \<in> set (rev ?js). j < length ys" using bound by simp
    ultimately have "foldl (\<lambda>xs i. list_pop i xs) (ys @ [y]) (rev ?js)
        = foldl (\<lambda>xs i. list_pop i xs) ys (rev ?js) @ [y]"
      by (rule foldl_pop_append)
    with False show ?thesis
      by (simp add: remove_clustered_def en IH)
  qed
qed

lemma update_center_points [simp]: "cl_points (update_center c) = cl_points c"
  by (simp add: update_center_def)

lemma update_center_count [simp]: "cl_incident_count (update_center c) = cl_incident_count c"
  by (simp add: update_center_def)

lemma cluster_loop_Cons:
  "cluster_loop geodesic radius_km m (seed_point # rest) clusters =
     cluster_loop geodesic radius_km m (filter (\<lambda>p. \<not> near geodesic radius_km seed_point p) rest)
       (if m \<le> cl_incident_count (formed_cluster geodesic radius_km seed_point rest)
        then clusters @ [formed_cluster geodesic radius_km seed_point rest] else clusters)"
proof -
  have found: "find_nearby geodesic radius_km seed_point (enumerate 0 rest) (new_cluster seed_point, [])
      = (\<lparr> cl_center = \<lparr> lat = hp_lat seed_point, lng = hp_lng seed_point \<rparr>,
           cl_points = seed_point # filter (near geodesic radius_km seed_point) rest,
           cl_incident_count = 1 + int (length (filter (near geodesic radius_km seed_point) rest)) \<rparr>,
         map fst (filter (\<lambda>(i, p). near geodesic radius_km seed_point p) (enumerate 0 rest)))"
    by (simp add: find_nearby_filter new_cluster_def)
  show ?thesis
    by (simp add: found Let_def remove_clustered_filter formed_cluster_def del: find_nearby.simps)
qed

lemma formed_cluster_points:
  "cl_points (formed_cluster geodesic radius_km seed_point rest)
     = seed_point # filter (near geodesic radius_km seed_point) rest"
  by (simp add: formed_cluster_def)

lemma formed_cluster_count:
  "cl_incident_count (formed_cluster geodesic radius_km seed_point rest)
     = int (length (cl_points (formed_cluster geodesic radius_km seed_point rest)))"
  by (simp add: formed_cluster_def)

lemma cluster_loop_acc:
  "cluster_loop geodesic radius_km m pts clusters = clusters @ cluster_loop geodesic radius_km m pts []"
proof (induction "length pts" arbitrary: pts clusters rule: less_induct)
  case less
  show ?case
  proof (cases pts)
    case Nil
    then show ?thesis by simp
  next
    case (Cons seed_point rest)
    let ?rem = "filter (\<lambda>p. \<not> near geodesic radius_km seed_point p) rest"
    have len: "length ?rem < length pts" using Cons by (simp add: le_imp_less_Suc)
    show ?thesis
      unfolding Cons cluster_loop_Cons
      using less [OF len, of "clusters @ [formed_cluster geodesic radius_km seed_point rest]"]
        less [OF len, of "[formed_cluster geodesic radius_km seed_point rest]"]
        less [OF len, of clusters]
      by simp
  qed
qed

lemma cluster_loop_min_filter:
  "cluster_loop geodesic radius_km m pts []
     = filter (\<lambda>c. m \<le> cl_incident_count c) (cluster_loop geodesic radius_km 1 pts [])"
proof (induction "length pts" arbitrary: pts rule: less_induct)
  case less
  show ?case
  proof (cases pts)
    case Nil
    then show ?thesis by simp
  next
    case (Cons seed_point rest)
    let ?rem = "filter (\<lambda>p. \<not> near geodesic radius_km seed_point p) rest"
    let ?c = "formed_cluster geodesic radius_km seed_point rest"
    have len: "length ?rem < length pts" using Cons by (simp add: le_imp_less_Suc)
    have one: "1 \<le> cl_incident_count ?c" by (simp add: formed_cluster_def)
    have l: "cluster_loop geodesic radius_km m pts []
        = (if m \<le> cl_incident_count ?c then [?c] else []) @ cluster_loop geodesic radius_km m ?rem []"
      unfolding Cons cluster_loop_Cons
      using cluster_loop_acc [of geodesic radius_km m ?rem "[?c]"] by simp
    have r: "cluster_loop geodesic radius_km 1 pts [] = [?c] @ cluster_loop geodesic radius_km 1 ?rem []"
      unfolding Cons cluster_loop_Cons
      using cluster_loop_acc [of geodesic radius_km 1 ?rem "[?c]"] one by simp
    show ?thesis unfolding l r using less [OF len] by simp
  qed
qed

lemma cluster_loop_partition:
  "mset (concat (map cl_points (cluster_loop geodesic radius_km 1 pts []))) = mset pts"
proof (induction "length pts" arbitrary: pts rule: less_induct)
  case less
  show ?case
  proof (cases pts)
    case Nil
    then show ?thesis by simp
  next
    case (Cons seed_point rest)
    let ?rem = "filter (\<lambda>p. \<not> near geodesic radius_km seed_point p) rest"
    let ?c = "formed_cluster geodesic radius_km seed_point rest"
    have len: "length ?rem < length pts" using Cons by (simp add: le_imp_less_Suc)
    have one: "1 \<le> cl_incident_count ?c" by (simp add: formed_cluster_def)
    have r: "cluster_loop geodesic radius_km 1 pts [] = [?c] @ cluster_loop geodesic radius_km 1 ?rem []"
      unfolding Cons cluster_loop_Cons
      using cluster_loop_acc [of geodesic radius_km 1 ?rem "[?c]"] one by simp
    show ?thesis
      unfolding r using less [OF len] Cons
      by (simp add: formed_cluster_points)
  qed
qed

lemma cluster_loop_counts:
  "\<forall>c \<in> set (cluster_loop geodesic radius_km 1 pts []). cl_incident_count c = int (length (cl_points c))"
proof (induction "length pts" arbitrary: pts rule: less_induct)
  case less
  show ?case
  proof (cases pts)
    case Nil
    then show ?thesis by simp
  next
    case (Cons seed_point rest)
    let ?rem = "filter (\<lambda>p. \<not> near geodesic radius_km seed_point p) rest"
    let ?c = "formed_cluster geodesic radius_km seed_point rest"
    have len: "length ?rem < length pts" using Cons by (simp add: le_imp_less_Suc)
    have one: "1 \<le> cl_incident_count ?c" by (simp add: formed_cluster_def)
    have r: "cluster_loop geodesic radius_km 1 pts [] = [?c] @ cluster_loop geodesic radius_km 1 ?rem []"
      unfolding Cons cluster_loop_Cons
      using cluster_loop_acc [of geodesic radius_km 1 ?rem "[?c]"] one by simp
    show ?thesis
      unfolding r using less [OF len] formed_cluster_count [of geodesic radius_km seed_point rest]
      by simp
  qed
qed

lemma add_to_cluster_points:
  "add_to_cluster geodesic radius_m location clusters = Some clusters' \<Longrightarrow>
   mset (concat (map lc_points clusters')) = mset (concat (map lc_points clusters)) + {#location#}"
proof (induction clusters arbitrary: clusters')
  case Nil
  then show ?case by simp
next
  case (Cons c cs)
  show ?case
  proof (cases "geodesic location (lc_center c) * 1000 \<le> radius_m")
    case True
    with Cons.prems show ?thesis by (auto simp: Let_def)
  next
    case False
    with Cons.prems obtain rest' where r: "add_to_cluster geodesic radius_m location cs = Some rest'"
      and c': "clusters' = c # rest'"
      by (auto simp: Let_def split: option.splits)
    from Cons.IH [OF r] c' show ?thesis by simp
  qed
qed

lemma add_to_cluster_counts:
  "add_to_cluster geodesic radius_m location clusters = Some clusters' \<Longrightarrow>
   list_all (\<lambda>c. lc_count c = int (length (lc_points c))) clusters \<Longrightarrow>
   list_all (\<lambda>c. lc_count c = int (length (lc_points c))) clusters'"
proof (induction clusters arbitrary: clusters')
  case Nil
  then show ?case by simp
next
  case (Cons c cs)
  show ?case
  proof (cases "geodesic location (lc_center c) * 1000 \<le> radius_m")
    case True
    with Cons.prems show ?thesis by (auto simp: Let_def)
  next
    case False
    with Cons.prems obtain rest' where r: "add_to_cluster geodesic radius_m location cs = Some rest'"
      and c': "clusters' = c # rest'"
      by (auto simp: Let_def split: option.splits)
    from Cons.IH [OF r] Cons.prems(2) c' show ?thesis by simp
  qed
qed

lemma frequent_loop_partition:
  "mset (concat (map lc_points (frequent_loop geodesic radius_m locations clusters)))
     = mset (concat (map lc_points clusters)) + mset locations"
proof (induction locations arbitrary: clusters)
  case Nil
  then show ?case by simp
next
  case (Cons location rest)
  show ?case
  proof (cases "add_to_cluster geodesic radius_m location clusters")
    case None
    then show ?thesis by (simp add: Cons.IH)
  next
    case (Some clusters')
    from add_to_cluster_points [OF Some] show ?thesis by (simp add: Some Cons.IH)
  qed
qed

lemma frequent_loop_counts:
  "list_all (\<lambda>c. lc_count c = int (length (lc_points c))) clusters \<Longrightarrow>
   list_all (\<lambda>c. lc_count c = int (length (lc_points c)))
     (frequent_loop geodesic radius_m locations clusters)"
proof (induction locations arbitrary: clusters)
  case Nil
  then show ?case by simp
next
  case (Cons location rest)
  show ?case
  proof (cases "add_to_cluster geodesic radius_m location clusters")
    case None
    with Cons.prems show ?thesis by (simp add: Cons.IH)
  next
    case (Some clusters')
    from add_to_cluster_counts [OF Some Cons.prems] show ?thesis by (simp add: Some Cons.IH)
  qed
qed

lemma mset_concat_filter_subset:
  "mset (concat (map f (filter P xs))) \<subseteq># mset (concat (map f xs))"
proof (induction xs)
  case Nil
  then show ?case by simp
next
  case (Cons x xs)
  then show ?case
    by (auto intro: subset_mset.add_mono subset_mset.order_trans [OF Cons] simp: mset_subset_eq_add_right)
qed

lemma distinct_concat_filter:
  "distinct (concat (map f xs)) \<Longrightarrow> distinct (concat (map f (filter P xs)))"
  by (induction xs) auto

lemma map_filter_cong_list_all:
  "list_all (\<lambda>c. g c = h c) xs \<Longrightarrow>
   map (\<lambda>c. F c (g c)) (filter (\<lambda>c. Q (g c)) xs) = map (\<lambda>c. F c (h c)) (filter (\<lambda>c. Q (h c)) xs)"
  by (induction xs) auto

text \<open>
  Claim C2, as the code has it. The clusters that \<open>_cluster_points\<close> forms (what it
  returns when the configured minimum is 1) partition the input: their member points, taken
  together, are the input points, each as often as it occurs. It returns the formed clusters
  with at least \<open>MIN_INCIDENTS_FOR_HOTSPOT\<close> members, so the members of the returned clusters
  are a part of the input, no input point is in two returned clusters, and they are all of
  the input when the minimum is at most 1. The clusters that \<open>_get_frequent_locations\<close>
  builds partition its locations in the same sense; it returns the centre and the size of
  those with at least 3 members, and nothing for fewer than 5 locations.
\<close>

theorem C2_clusters_partition:
  "mset (concat (map cl_points
       (cluster_points geodesic (cfg \<lparr> MIN_INCIDENTS_FOR_HOTSPOT := 1 \<rparr>) points radius_km))) = mset points
   \<and> cluster_points geodesic cfg points radius_km
       = filter (\<lambda>c. MIN_INCIDENTS_FOR_HOTSPOT cfg \<le> int (length (cl_points c)))
           (cluster_points geodesic (cfg \<lparr> MIN_INCIDENTS_FOR_HOTSPOT := 1 \<rparr>) points radius_km)
   \<and> mset (concat (map cl_points (cluster_points geodesic cfg points radius_km))) \<subseteq># mset points
   \<and> (distinct points \<longrightarrow>
        distinct (concat (map cl_points (cluster_points geodesic cfg points radius_km))))
   \<and> (MIN_INCIDENTS_FOR_HOTSPOT cfg \<le> 1 \<longrightarrow>
        mset (concat (map cl_points (cluster_points geodesic cfg points radius_km))) = mset points)
   \<and> mset (concat (map lc_points (frequent_loop geodesic radius_m locations []))) = mset locations
   \<and> get_frequent_locations geodesic locations radius_m
       = (if length locations < 5 then []
          else map (\<lambda>c. \<lparr> fl_center = lc_center c, fl_visit_count = int (length (lc_points c)) \<rparr>)
                 (filter (\<lambda>c. 3 \<le> int (length (lc_points c)))
                    (frequent_loop geodesic radius_m locations [])))"
proof -
  let ?formed = "cluster_loop geodesic radius_km 1 points []"
  let ?returned = "cluster_points geodesic cfg points radius_km"
  have formed: "cluster_points geodesic (cfg \<lparr> MIN_INCIDENTS_FOR_HOTSPOT := 1 \<rparr>) points radius_km = ?formed"
    by (simp add: cluster_points_def)
  have part: "mset (concat (map cl_points ?formed)) = mset points"
    by (rule cluster_loop_partition)
  have "?returned = filter (\<lambda>c. MIN_INCIDENTS_FOR_HOTSPOT cfg \<le> cl_incident_count c) ?formed"
    unfolding cluster_points_def by (rule cluster_loop_min_filter)
  also have "\<dots> = filter (\<lambda>c. MIN_INCIDENTS_FOR_HOTSPOT cfg \<le> int (length (cl_points c))) ?formed"
    using cluster_loop_counts [of geodesic radius_km points] by (intro filter_cong) auto
  finally have ret: "?returned
      = filter (\<lambda>c. MIN_INCIDENTS_FOR_HOTSPOT cfg \<le> int (length (cl_points c))) ?formed" .
  have sub: "mset (concat (map cl_points ?returned)) \<subseteq># mset points"
    unfolding ret using mset_concat_filter_subset [of cl_points _ ?formed] part by simp
  have dist: "distinct (concat (map cl_points ?returned))" if "distinct points"
  proof -
    from that part have "distinct (concat (map cl_points ?formed))"
      by (simp add: mset_eq_imp_distinct_iff [OF part])
    then show ?thesis unfolding ret by (rule distinct_concat_filter)
  qed
  have all: "mset (concat (map cl_points ?returned)) = mset points"
    if "MIN_INCIDENTS_FOR_HOTSPOT cfg \<le> 1"
  proof -
    have "\<forall>c \<in> set ?formed. MIN_INCIDENTS_FOR_HOTSPOT cfg \<le> int (length (cl_points c))"
    proof
      fix c
      assume c: "c \<in> set ?formed"
      have "?formed = filter (\<lambda>c. 1 \<le> cl_incident_count c) ?formed"
        by (rule cluster_loop_min_filter)
      then have "c \<in> set (filter (\<lambda>c. 1 \<le> cl_incident_count c) ?formed)"
        using c by (rule subst)
      then have "1 \<le> cl_incident_count c" by (simp only: set_filter mem_Collect_eq)
      with cluster_loop_counts [of geodesic radius_km points] c
      have "1 \<le> int (length (cl_points c))" by auto
      with that show "MIN_INCIDENTS_FOR_HOTSPOT cfg \<le> int (length (cl_points c))" by simp
    qed
    then have "filter (\<lambda>c. MIN_INCIDENTS_FOR_HOTSPOT cfg \<le> int (length (cl_points c))) ?formed = ?formed"
      by (simp add: filter_id_conv)
    with ret part show ?thesis by simp
  qed
  have fp: "mset (concat (map lc_points (frequent_loop geodesic radius_m locations []))) = mset locations"
    using frequent_loop_partition [of geodesic radius_m locations "[]"] by simp
  have "list_all (\<lambda>c. lc_count c = int (length (lc_points c)))
      (frequent_loop geodesic radius_m locations [])"
    by (rule frequent_loop_counts) simp
  then have fl: "map (\<lambda>c. \<lparr> fl_center = lc_center c, fl_visit_count = lc_count c \<rparr>)
        (filter (\<lambda>c. 3 \<le> lc_count c) (frequent_loop geodesic radius_m locations []))
      = map (\<lambda>c. \<lparr> fl_center = lc_center c, fl_visit_count = int (length (lc_points c)) \<rparr>)
        (filter (\<lambda>c. 3 \<le> int (length (lc_points c))) (frequent_loop geodesic radius_m locations []))"
    by (rule map_filter_cong_list_all
        [where F = "\<lambda>c n. \<lparr> fl_center = lc_center c, fl_visit_count = n \<rparr>" and Q = "\<lambda>n. 3 \<le> n"])
  show ?thesis
    unfolding formed using part ret sub dist all fp fl
    by (simp add: get_frequent_locations_def)
qed

theorem C2_clusters_partition_witness:
  "distinct (concat (map cl_points
      (cluster_points lat_geodesic (default_config \<lparr> MIN_INCIDENTS_FOR_HOTSPOT := 2 \<rparr>)
         [example_hot_point 0 ''crime'' ''high'' 0, example_hot_point 0.001 ''fire'' ''low'' 0,
          example_hot_point 1 ''crime'' ''high'' 0] 0.5)))
   \<and> mset (concat (map cl_points
      (cluster_points lat_geodesic (default_config \<lparr> MIN_INCIDENTS_FOR_HOTSPOT := 1 \<rparr>)
         [example_hot_point 0 ''crime'' ''high'' 0, example_hot_point 0.001 ''fire'' ''low'' 0,
          example_hot_point 1 ''crime'' ''high'' 0] 0.5)))
     = mset [example_hot_point 0 ''crime'' ''high'' 0, example_hot_point 0.001 ''fire'' ''low'' 0,
          example_hot_point 1 ''crime'' ''high'' 0]"
proof -
  have d: "distinct [example_hot_point 0 ''crime'' ''high'' 0, example_hot_point 0.001 ''fire'' ''low'' 0,
          example_hot_point 1 ''crime'' ''high'' 0]"
    by (simp add: example_hot_point_def)
  have m: "MIN_INCIDENTS_FOR_HOTSPOT (default_config \<lparr> MIN_INCIDENTS_FOR_HOTSPOT := 1 \<rparr>) \<le> 1"
    by simp
  from C2_clusters_partition [of lat_geodesic "default_config \<lparr> MIN_INCIDENTS_FOR_HOTSPOT := 2 \<rparr>"
      "[example_hot_point 0 ''crime'' ''high'' 0, example_hot_point 0.001 ''fire'' ''low'' 0,
          example_hot_point 1 ''crime'' ''high'' 0]" "0.5" 100 "[]"] d
  have 1: "distinct (concat (map cl_points
      (cluster_points lat_geodesic (default_config \<lparr> MIN_INCIDENTS_FOR_HOTSPOT := 2 \<rparr>)
         [example_hot_point 0 ''crime'' ''high'' 0, example_hot_point 0.001 ''fire'' ''low'' 0,
          example_hot_point 1 ''crime'' ''high'' 0] 0.5)))"
    by blast
  from C2_clusters_partition [of lat_geodesic "default_config \<lparr> MIN_INCIDENTS_FOR_HOTSPOT := 1 \<rparr>"
      "[example_hot_point 0 ''crime'' ''high'' 0, example_hot_point 0.001 ''fire'' ''low'' 0,
          example_hot_point 1 ''crime'' ''high'' 0]" "0.5" 100 "[]"] m
  have 2: "mset (concat (map cl_points
      (cluster_points lat_geodesic (default_config \<lparr> MIN_INCIDENTS_FOR_HOTSPOT := 1 \<rparr>)
         [example_hot_point 0 ''crime'' ''high'' 0, example_hot_point 0.001 ''fire'' ''low'' 0,
          example_hot_point 1 ''crime'' ''high'' 0] 0.5)))
     = mset [example_hot_point 0 ''crime'' ''high'' 0, example_hot_point 0.001 ''fire'' ''low'' 0,
          example_hot_point 1 ''crime'' ''high'' 0]"
    by blast
  from 1 2 show ?thesis by (rule conjI)
qed

text \<open>
  The claim as worded fails: with the default minimum of 5 a single input point forms a
  cluster that is dropped, so the returned clusters do not cover the input; and
  \<open>_get_frequent_locations\<close> returns nothing for a single location.
\<close>

theorem C2_dropped_cluster_counterexample:
  "cluster_points lat_geodesic default_config [example_hot_point 0 ''crime'' ''high'' 0]
      (HOTSPOT_RADIUS default_config) = []
   \<and> set (concat (map cl_points
        (cluster_points lat_geodesic default_config [example_hot_point 0 ''crime'' ''high'' 0]
           (HOTSPOT_RADIUS default_config))))
      \<noteq> set [example_hot_point 0 ''crime'' ''high'' 0]
   \<and> get_frequent_locations lat_geodesic [(28.6139, 77.2090)] 100 = []"
proof -
  have "cluster_points lat_geodesic default_config [example_hot_point 0 ''crime'' ''high'' 0]
      (HOTSPOT_RADIUS default_config) = []"
    by (simp add: cluster_points_def new_cluster_def update_center_def remove_clustered_def
        default_config_def Let_def)
  then show ?thesis by (simp add: get_frequent_locations_def)
qed

section \<open>Verification: hotspots\<close>

lemma foldl_add_point_score:
  "real_of_int (foldl add_point_score acc points) =
     real_of_int acc + sum_list (map (\<lambda>p. real_of_int (add_point_score 0 p)) points)"
proof (induction points arbitrary: acc)
  case Nil
  then show ?case by simp
next
  case (Cons p points)
  have "add_point_score acc p = acc + add_point_score 0 p"
    by (simp add: add_point_score_def Let_def)
  with Cons show ?case by simp
qed

lemma add_point_score_listed:
  "hp_subtype p \<in> listed_types \<Longrightarrow>
   real_of_int (add_point_score 0 p)
     = hotspot_severity_weight (hp_severity p) * listed_type_weight (hp_subtype p)"
  by (auto simp: add_point_score_def listed_types_def hotspot_severity_weight_def
      listed_type_weight_def severity_weights_def type_weights_def dict_get_def Let_def)

lemma parse_naive:
  "naive_instant v = Some t \<Longrightarrow> parse_timestamp v = Inr \<lparr> dt_wall = t, dt_utcoffset = None \<rparr>"
  by (cases v) (auto simp: naive_instant_def parse_timestamp_def split: sum.splits option.splits)

lemma parse_not_naive:
  "naive_instant v = None \<Longrightarrow>
   (\<exists>e. parse_timestamp v = Inl e) \<or> (\<exists>d off. parse_timestamp v = Inr d \<and> dt_utcoffset d = Some off)"
  by (cases v) (auto simp: naive_instant_def parse_timestamp_def split: sum.splits option.splits)

lemma time_weight_naive:
  assumes "naive_instant (hp_timestamp p) \<noteq> None"
  shows "time_weight now p = Inr (time_decay now p)"
proof -
  from assms obtain t where t: "naive_instant (hp_timestamp p) = Some t" by auto
  have "\<lfloor>real_of_int (now - t) / real_of_int seconds_per_day\<rfloor> = (now - t) div seconds_per_day"
    by (rule floor_divide_of_int_eq)
  then show ?thesis
    by (simp add: time_weight_def parse_naive [OF t] dt_diff_def time_decay_def t Let_def)
qed

lemma time_weight_not_naive:
  assumes "naive_instant (hp_timestamp p) = None"
  shows "\<exists>e. time_weight now p = Inl e"
  using parse_not_naive [OF assms]
  by (auto simp: time_weight_def dt_diff_def)

lemma time_weights_loop_naive:
  "naive_stamps points \<Longrightarrow>
   time_weights_loop now points acc = Inr (acc @ map (time_decay now) points)"
proof (induction points arbitrary: acc)
  case Nil
  then show ?case by simp
next
  case (Cons p points)
  from Cons.prems have p: "naive_instant (hp_timestamp p) \<noteq> None" and rest: "naive_stamps points"
    by (simp_all add: naive_stamps_def)
  show ?case by (simp add: time_weight_naive [OF p] Cons.IH [OF rest])
qed

lemma time_weights_loop_raises:
  "\<not> naive_stamps points \<Longrightarrow> \<exists>e. time_weights_loop now points acc = Inl e"
proof (induction points arbitrary: acc)
  case Nil
  then show ?case by (simp add: naive_stamps_def)
next
  case (Cons p points)
  show ?case
  proof (cases "naive_instant (hp_timestamp p) = None")
    case True
    from time_weight_not_naive [OF True, of now] show ?thesis by auto
  next
    case False
    with Cons.prems have "\<not> naive_stamps points" by (simp add: naive_stamps_def)
    from Cons.IH [OF this] show ?thesis by (simp add: time_weight_naive [OF False])
  qed
qed

lemma recent_points_naive:
  "naive_stamps points \<Longrightarrow> \<exists>ps. recent_points now points = Inr ps"
proof (induction points)
  case Nil
  then show ?case by simp
next
  case (Cons p points)
  from Cons.prems obtain t where t: "naive_instant (hp_timestamp p) = Some t"
    and rest: "naive_stamps points"
    by (auto simp: naive_stamps_def)
  from Cons.IH [OF rest] obtain ps where "recent_points now points = Inr ps" by blast
  then show ?case by (simp add: is_recent_def parse_naive [OF t] Let_def)
qed

lemma final_score_formula:
  assumes "list_all (\<lambda>p. hp_subtype p \<in> listed_types) (cl_points c)"
    and "naive_stamps (cl_points c)" and "cl_points c \<noteq> []"
  shows "final_score now c = Inr (hotspot_score_formula listed_type_weight now (cl_points c))"
proof -
  have "map (\<lambda>p. real_of_int (add_point_score 0 p)) (cl_points c)
      = map (\<lambda>p. hotspot_severity_weight (hp_severity p) * listed_type_weight (hp_subtype p)) (cl_points c)"
    using assms(1) by (intro map_cong) (auto simp: list_all_iff add_point_score_listed)
  then have "real_of_int (foldl add_point_score 0 (cl_points c))
      = sum_list (map (\<lambda>p. hotspot_severity_weight (hp_severity p) * listed_type_weight (hp_subtype p))
          (cl_points c))"
    unfolding foldl_add_point_score by (simp only: of_int_0 add_0)
  then show ?thesis
    using assms(3)
    by (simp add: final_score_def time_weights_loop_naive [OF assms(2)] hotspot_score_formula_def
        np_mean_def Let_def)
qed

lemma final_score_naive:
  "naive_stamps (cl_points c) \<Longrightarrow> \<exists>score. final_score now c = Inr score"
  by (simp add: final_score_def time_weights_loop_naive Let_def)

lemma count_subtype_nonempty: "count_subtype k d \<noteq> []"
  by (cases d) (auto split: if_splits)

lemma breakdown_nonempty:
  "points \<noteq> [] \<or> d \<noteq> [] \<Longrightarrow> foldl (\<lambda>d point. count_subtype (hp_subtype point) d) d points \<noteq> []"
proof (induction points arbitrary: d)
  case Nil
  then show ?case by simp
next
  case (Cons p points)
  show ?case using Cons.IH [of "count_subtype (hp_subtype p) d"]
    by (simp add: count_subtype_nonempty)
qed

lemma hotspot_of_score:
  assumes "cl_points c \<noteq> []" and "naive_stamps (cl_points c)"
  shows "\<exists>h score. hotspot_of now cfg c = Inr h \<and> final_score now c = Inr score
           \<and> hs_risk_score h = py_round2 score"
proof -
  let ?b = "foldl (\<lambda>d point. count_subtype (hp_subtype point) d) [] (cl_points c)"
  have "?b \<noteq> []" using assms(1) by (intro breakdown_nonempty) simp
  then obtain x xs where b: "?b = x # xs" by (cases ?b) auto
  from final_score_naive [OF assms(2)] obtain score where s: "final_score now c = Inr score" by blast
  from recent_points_naive [OF assms(2)] obtain ps where r: "recent_points now (cl_points c) = Inr ps"
    by blast
  show ?thesis by (simp add: hotspot_of_def s b r Let_def)
qed

text \<open>
  A time stamp that is no naive datetime makes \<open>_rank_hotspots\<close> raise: a string that
  does not parse, or one that ends in \<open>Z\<close> or in an offset, which parses to an aware
  datetime that the naive \<open>utcnow()\<close> cannot be subtracted from. \<open>_identify_hotspots\<close> then
  returns no hotspot at all, as for five incidents with such a time stamp.
\<close>

lemma hotspot_of_raises:
  "\<not> naive_stamps (cl_points c) \<Longrightarrow> \<exists>e. hotspot_of now cfg c = Inl e"
  using time_weights_loop_raises [of "cl_points c" now "[]"]
  by (auto simp: hotspot_of_def final_score_def Let_def)

lemma five_zulu_incidents_no_hotspot:
  "identify_hotspots 0 lat_geodesic default_config
      [zulu_incident, zulu_incident, zulu_incident, zulu_incident, zulu_incident] [] = []"
proof -
  define p where "p = \<lparr> hp_lat = 28.6139, hp_lng = 77.2090, hp_type = ''incident'',
     hp_subtype = ''medical'', hp_severity = ''medium'',
     hp_timestamp = Iso_text (Inr \<lparr> dt_wall = 0, dt_utcoffset = Some 0 \<rparr>) \<rparr>"
  have pts: "incident_points 0
      [zulu_incident, zulu_incident, zulu_incident, zulu_incident, zulu_incident] = [p, p, p, p, p]"
    by (simp add: zulu_incident_def field_get_def p_def)
  define c5 where "c5 = \<lparr> cl_center = \<lparr> lat = 28.6139, lng = 77.2090 \<rparr>,
     cl_points = [p, p, p, p, p], cl_incident_count = 5 \<rparr>"
  have cl: "cluster_points lat_geodesic default_config [p, p, p, p, p] (HOTSPOT_RADIUS default_config)
      = [c5]"
    by (simp add: cluster_points_def new_cluster_def update_center_def remove_clustered_def
        list_pop_def default_config_def lat_geodesic_def np_mean_def Let_def p_def c5_def)
  have "time_weight 0 p = Inl TypeError"
    by (simp add: time_weight_def parse_timestamp_def dt_diff_def p_def)
  then have "hotspot_of 0 default_config c5 = Inl TypeError"
    by (simp add: hotspot_of_def final_score_def c5_def Let_def)
  then show ?thesis
    unfolding identify_hotspots_def Let_def pts
    by (simp add: cl rank_hotspots_def)
qed

lemma rank_loop_hotspots:
  "rank_loop now cfg clusters ranked = Inr result \<Longrightarrow>
   \<exists>hs. result = ranked @ hs \<and> list_all2 (\<lambda>c h. hotspot_of now cfg c = Inr h) clusters hs"
proof (induction clusters arbitrary: ranked)
  case Nil
  then show ?case by simp
next
  case (Cons c clusters)
  from Cons.prems obtain h where h: "hotspot_of now cfg c = Inr h"
    and r: "rank_loop now cfg clusters (ranked @ [h]) = Inr result"
    by (auto split: sum.splits)
  from Cons.IH [OF r] obtain hs where "result = (ranked @ [h]) @ hs"
    and "list_all2 (\<lambda>c h. hotspot_of now cfg c = Inr h) clusters hs" by blast
  with h have "result = ranked @ (h # hs) \<and> list_all2 (\<lambda>c h. hotspot_of now cfg c = Inr h) (c # clusters) (h # hs)"
    by simp
  then show ?case by blast
qed

lemma rank_loop_total:
  "list_all (\<lambda>c. cl_points c \<noteq> [] \<and> naive_stamps (cl_points c)) clusters \<Longrightarrow>
   \<exists>hs. rank_loop now cfg clusters ranked = Inr (ranked @ hs)
        \<and> list_all2 (\<lambda>c h. hotspot_of now cfg c = Inr h) clusters hs"
proof (induction clusters arbitrary: ranked)
  case Nil
  then show ?case by simp
next
  case (Cons c clusters)
  from Cons.prems have c: "cl_points c \<noteq> []" "naive_stamps (cl_points c)"
    and rest: "list_all (\<lambda>c. cl_points c \<noteq> [] \<and> naive_stamps (cl_points c)) clusters"
    by simp_all
  from hotspot_of_score [OF c, of now cfg] obtain h where h: "hotspot_of now cfg c = Inr h" by blast
  from Cons.IH [OF rest, of "ranked @ [h]"] obtain hs where
    "rank_loop now cfg clusters (ranked @ [h]) = Inr ((ranked @ [h]) @ hs)"
    and "list_all2 (\<lambda>c h. hotspot_of now cfg c = Inr h) clusters hs" by blast
  with h have "rank_loop now cfg (c # clusters) ranked = Inr (ranked @ (h # hs))
      \<and> list_all2 (\<lambda>c h. hotspot_of now cfg c = Inr h) (c # clusters) (h # hs)"
    by simp
  then show ?case by blast
qed

lemma sort_key_descending:
  "sorted_wrt (\<lambda>a b. key b \<le> key a) (sort_key (\<lambda>h. - key h) (xs :: 'a list))"
  for key :: "'a \<Rightarrow> real"
proof -
  have "sorted (map (\<lambda>h. - key h) (sort_key (\<lambda>h. - key h) xs))" by (rule sorted_sort_key)
  then show ?thesis by (simp add: sorted_map)
qed

lemma rank_hotspots_sorted:
  "rank_hotspots now cfg clusters = Inr ranked \<Longrightarrow>
   sorted_wrt (\<lambda>a b. hs_risk_score b \<le> hs_risk_score a) ranked
   \<and> (\<forall>h \<in> set ranked. \<exists>c \<in> set clusters. hotspot_of now cfg c = Inr h)"
proof -
  assume a: "rank_hotspots now cfg clusters = Inr ranked"
  then obtain r where r: "rank_loop now cfg clusters [] = Inr r"
    and ranked: "ranked = sort_key (\<lambda>h. - hs_risk_score h) r"
    by (auto simp: rank_hotspots_def split: sum.splits)
  from rank_loop_hotspots [OF r] have l: "list_all2 (\<lambda>c h. hotspot_of now cfg c = Inr h) clusters r"
    by simp
  have "\<forall>h \<in> set r. \<exists>c \<in> set clusters. hotspot_of now cfg c = Inr h"
  proof
    fix h
    assume "h \<in> set r"
    then obtain i where i: "i < length r" "r ! i = h" by (auto simp: in_set_conv_nth)
    with l have "hotspot_of now cfg (clusters ! i) = Inr h" "i < length clusters"
      by (auto simp: list_all2_conv_all_nth)
    then show "\<exists>c \<in> set clusters. hotspot_of now cfg c = Inr h"
      using nth_mem by blast
  qed
  then show ?thesis unfolding ranked by (simp add: sort_key_descending)
qed

lemma returned_cluster_points:
  assumes "c \<in> set (cluster_points geodesic cfg points radius_km)"
  shows "cl_points c \<noteq> [] \<and> set (cl_points c) \<subseteq> set points"
proof -
  let ?formed = "cluster_loop geodesic radius_km 1 points []"
  have "cluster_points geodesic cfg points radius_km
      = filter (\<lambda>c. MIN_INCIDENTS_FOR_HOTSPOT cfg \<le> cl_incident_count c) ?formed"
    unfolding cluster_points_def by (rule cluster_loop_min_filter)
  with assms have c: "c \<in> set ?formed" by simp
  have "?formed = filter (\<lambda>c. 1 \<le> cl_incident_count c) ?formed"
    by (rule cluster_loop_min_filter)
  then have "c \<in> set (filter (\<lambda>c. 1 \<le> cl_incident_count c) ?formed)"
    using c by (rule subst)
  then have "1 \<le> cl_incident_count c" by (simp only: set_filter mem_Collect_eq)
  with cluster_loop_counts [of geodesic radius_km points] c
  have ne: "cl_points c \<noteq> []" by auto
  have "set (cl_points c) \<subseteq> set (concat (map cl_points ?formed))" using c by auto
  also have "\<dots> = set_mset (mset (concat (map cl_points ?formed)))" by simp
  also have "\<dots> = set points" unfolding cluster_loop_partition by simp
  finally show ?thesis using ne by simp
qed

lemma identify_hotspots_ranked:
  "sorted_wrt (\<lambda>a b. hs_risk_score b \<le> hs_risk_score a)
      (identify_hotspots now geodesic cfg incidents panic_alerts)
   \<and> length (identify_hotspots now geodesic cfg incidents panic_alerts) \<le> 10
   \<and> (\<forall>h \<in> set (identify_hotspots now geodesic cfg incidents panic_alerts).
        \<exists>c \<in> set (cluster_points geodesic cfg
                     (incident_points now incidents @ alert_points now panic_alerts)
                     (HOTSPOT_RADIUS cfg)).
          hotspot_of now cfg c = Inr h)"
proof -
  let ?pts = "incident_points now incidents @ alert_points now panic_alerts"
  let ?cs = "cluster_points geodesic cfg ?pts (HOTSPOT_RADIUS cfg)"
  show ?thesis
  proof (cases "int (length ?pts) < MIN_INCIDENTS_FOR_HOTSPOT cfg")
    case True
    then show ?thesis by (simp add: identify_hotspots_def)
  next
    case False
    show ?thesis
    proof (cases "rank_hotspots now cfg ?cs")
      case (Inl e)
      with False show ?thesis by (simp add: identify_hotspots_def)
    next
      case (Inr ranked)
      from rank_hotspots_sorted [OF Inr]
      have s: "sorted_wrt (\<lambda>a b. hs_risk_score b \<le> hs_risk_score a) ranked"
        and m: "\<forall>h \<in> set ranked. \<exists>c \<in> set ?cs. hotspot_of now cfg c = Inr h" by blast+
      have r: "identify_hotspots now geodesic cfg incidents panic_alerts = take 10 ranked"
        using False Inr by (simp add: identify_hotspots_def Let_def)
      have "sorted_wrt (\<lambda>a b. hs_risk_score b \<le> hs_risk_score a) (take 10 ranked)"
        using s by (rule sorted_wrt_take)
      moreover have "\<forall>h \<in> set (take 10 ranked). \<exists>c \<in> set ?cs. hotspot_of now cfg c = Inr h"
        using m by (meson in_set_takeD)
      ultimately show ?thesis unfolding r by simp
    qed
  qed
qed

lemma identify_hotspots_determined:
  assumes enough: "MIN_INCIDENTS_FOR_HOTSPOT cfg
      \<le> int (length (incident_points now incidents @ alert_points now panic_alerts))"
    and naive: "naive_stamps (incident_points now incidents @ alert_points now panic_alerts)"
  shows "\<exists>hs. list_all2 (\<lambda>c h. hotspot_of now cfg c = Inr h)
            (cluster_points geodesic cfg
               (incident_points now incidents @ alert_points now panic_alerts) (HOTSPOT_RADIUS cfg)) hs
         \<and> identify_hotspots now geodesic cfg incidents panic_alerts
             = take 10 (sort_key (\<lambda>h. - hs_risk_score h) hs)"
proof -
  let ?pts = "incident_points now incidents @ alert_points now panic_alerts"
  let ?cs = "cluster_points geodesic cfg ?pts (HOTSPOT_RADIUS cfg)"
  have "list_all (\<lambda>c. cl_points c \<noteq> [] \<and> naive_stamps (cl_points c)) ?cs"
    unfolding list_all_iff
  proof
    fix c
    assume "c \<in> set ?cs"
    from returned_cluster_points [OF this]
    have ne: "cl_points c \<noteq> []" and sub: "set (cl_points c) \<subseteq> set ?pts" by blast+
    from naive sub have "naive_stamps (cl_points c)"
      unfolding naive_stamps_def list_all_iff by blast
    with ne show "cl_points c \<noteq> [] \<and> naive_stamps (cl_points c)" by simp
  qed
  from rank_loop_total [OF this, of now cfg "[]"] obtain hs where
    r: "rank_loop now cfg ?cs [] = Inr hs"
    and l: "list_all2 (\<lambda>c h. hotspot_of now cfg c = Inr h) ?cs hs" by auto
  have "identify_hotspots now geodesic cfg incidents panic_alerts
      = take 10 (sort_key (\<lambda>h. - hs_risk_score h) hs)"
    using enough r by (simp add: identify_hotspots_def rank_hotspots_def Let_def)
  with l show ?thesis by blast
qed

lemma five_medical_incidents_hotspot:
  "map hs_risk_score (identify_hotspots 0 lat_geodesic default_config
      [medical_incident, medical_incident, medical_incident, medical_incident, medical_incident] [])
     = [20]"
proof -
  define p where "p = \<lparr> hp_lat = 28.6139, hp_lng = 77.2090, hp_type = ''incident'',
     hp_subtype = ''medical'', hp_severity = ''medium'', hp_timestamp = Instant 0 \<rparr>"
  have pts: "incident_points 0
      [medical_incident, medical_incident, medical_incident, medical_incident, medical_incident]
      = [p, p, p, p, p]"
    by (simp add: medical_incident_def field_get_def p_def)
  define c5 where "c5 = \<lparr> cl_center = \<lparr> lat = 28.6139, lng = 77.2090 \<rparr>,
     cl_points = [p, p, p, p, p], cl_incident_count = 5 \<rparr>"
  have cl: "cluster_points lat_geodesic default_config [p, p, p, p, p] (HOTSPOT_RADIUS default_config)
      = [c5]"
    by (simp add: cluster_points_def new_cluster_def update_center_def remove_clustered_def
        list_pop_def default_config_def lat_geodesic_def np_mean_def Let_def p_def c5_def)
  have c5: "cl_points c5 = [p, p, p, p, p]" "cl_incident_count c5 = 5"
    by (simp_all add: c5_def)
  have tw: "time_weight 0 p = Inr 1"
    by (simp add: time_weight_def parse_timestamp_def dt_diff_def p_def seconds_per_day_def)
  have rc: "is_recent 0 (hp_timestamp p) 7 = Inr True"
    by (simp add: is_recent_def parse_timestamp_def p_def seconds_per_day_def)
  have sc: "add_point_score n p = n + 4" for n
    by (simp add: add_point_score_def p_def severity_weights_def type_weights_def dict_get_def)
  have fs: "final_score 0 c5 = Inr 20"
    by (simp add: final_score_def c5 tw sc np_mean_def)
  have r: "py_round2 20 = 20" by (simp add: py_round2_def py_round_def Let_def)
  have bd: "foldl (\<lambda>d point. count_subtype (hp_subtype point) d) [] [p, p, p, p, p] = [(''medical'', 5)]"
    by (simp add: p_def)
  have m: "MIN_INCIDENTS_FOR_HOTSPOT default_config = 5" by (simp add: default_config_def)
  have "map_sum id hs_risk_score (hotspot_of 0 default_config c5) = Inr 20"
    by (simp add: hotspot_of_def fs r bd c5 rc Let_def)
  then obtain h where h: "hotspot_of 0 default_config c5 = Inr h" "hs_risk_score h = 20"
    by (cases "hotspot_of 0 default_config c5") auto
  show ?thesis
    unfolding identify_hotspots_def Let_def pts
    by (simp add: cl m rank_hotspots_def h)
qed

lemma ten_incidents_hotspots:
  "map hs_risk_score (identify_hotspots 0 lat_geodesic default_config ten_incidents []) = [45, 20]"
proof -
  define p where "p = \<lparr> hp_lat = 28.6139, hp_lng = 77.2090, hp_type = ''incident'',
     hp_subtype = ''medical'', hp_severity = ''medium'', hp_timestamp = Instant 0 \<rparr>"
  define q where "q = \<lparr> hp_lat = 29.6139, hp_lng = 77.2090, hp_type = ''incident'',
     hp_subtype = ''crime'', hp_severity = ''high'', hp_timestamp = Instant 0 \<rparr>"
  have pts: "incident_points 0 ten_incidents = [p, p, p, p, p, q, q, q, q, q]"
    by (simp add: ten_incidents_def medical_incident_def crime_incident_def field_get_def p_def q_def)
  define cp where "cp = \<lparr> cl_center = \<lparr> lat = 28.6139, lng = 77.2090 \<rparr>,
     cl_points = [p, p, p, p, p], cl_incident_count = 5 \<rparr>"
  define cq where "cq = \<lparr> cl_center = \<lparr> lat = 29.6139, lng = 77.2090 \<rparr>,
     cl_points = [q, q, q, q, q], cl_incident_count = 5 \<rparr>"
  have cl: "cluster_points lat_geodesic default_config [p, p, p, p, p, q, q, q, q, q]
      (HOTSPOT_RADIUS default_config) = [cp, cq]"
    by (simp add: cluster_points_def new_cluster_def update_center_def remove_clustered_def
        list_pop_def default_config_def lat_geodesic_def np_mean_def Let_def p_def q_def
        cp_def cq_def)
  have c: "cl_points cp = [p, p, p, p, p]" "cl_points cq = [q, q, q, q, q]"
    by (simp_all add: cp_def cq_def)
  have tw: "time_weight 0 p = Inr 1" "time_weight 0 q = Inr 1"
    by (simp_all add: time_weight_def parse_timestamp_def dt_diff_def p_def q_def seconds_per_day_def)
  have rc: "is_recent 0 (hp_timestamp p) 7 = Inr True" "is_recent 0 (hp_timestamp q) 7 = Inr True"
    by (simp_all add: is_recent_def parse_timestamp_def p_def q_def seconds_per_day_def)
  have sc: "add_point_score n p = n + 4" "add_point_score n q = n + 9" for n
    by (simp_all add: add_point_score_def p_def q_def severity_weights_def type_weights_def dict_get_def)
  have fs: "final_score 0 cp = Inr 20" "final_score 0 cq = Inr 45"
    by (simp_all add: final_score_def c tw sc np_mean_def)
  have r: "py_round2 20 = 20" "py_round2 45 = 45" by (simp_all add: py_round2_def py_round_def Let_def)
  have bd: "foldl (\<lambda>d point. count_subtype (hp_subtype point) d) [] [p, p, p, p, p] = [(''medical'', 5)]"
    "foldl (\<lambda>d point. count_subtype (hp_subtype point) d) [] [q, q, q, q, q] = [(''crime'', 5)]"
    by (simp_all add: p_def q_def)
  have m: "MIN_INCIDENTS_FOR_HOTSPOT default_config = 5" by (simp add: default_config_def)
  have "map_sum id hs_risk_score (hotspot_of 0 default_config cp) = Inr 20"
    by (simp add: hotspot_of_def fs r bd c rc Let_def)
  then obtain hp where hp: "hotspot_of 0 default_config cp = Inr hp" "hs_risk_score hp = 20"
    by (cases "hotspot_of 0 default_config cp") auto
  have "map_sum id hs_risk_score (hotspot_of 0 default_config cq) = Inr 45"
    by (simp add: hotspot_of_def fs r bd c rc Let_def)
  then obtain hq where hq: "hotspot_of 0 default_config cq = Inr hq" "hs_risk_score hq = 45"
    by (cases "hotspot_of 0 default_config cq") auto
  show ?thesis
    unfolding identify_hotspots_def Let_def pts
    by (simp add: cl m rank_hotspots_def hp hq)
qed

text \<open>
  Claim C5, as the code has it. For a cluster of incidents of the types crime, accident,
  medical, fire and other whose time stamps are naive datetimes, the hotspot score is the
  sum over the member points of severity weight (low 1, medium 2, high 3, critical 4) times
  type weight, with the table of \<open>_rank_hotspots\<close> (crime 3, accident 2, medical 2, fire 2,
  other 1), times the average over the members of \<open>max(0.1, 1 - days_old / 30)\<close>, rounded to
  two decimals. What \<open>_identify_hotspots\<close> returns is in descending order of this rounded
  score, has at most 10 entries, and each entry is the hotspot of a returned cluster. When
  there are at least \<open>MIN_INCIDENTS_FOR_HOTSPOT\<close> points and all time stamps are naive, it
  is exactly the first 10 of the hotspots of all returned clusters, one for each cluster,
  stably sorted by descending rounded score.
\<close>

theorem C5_hotspot_score_and_ranking:
  "(cl_points c \<noteq> [] \<and> list_all (\<lambda>p. hp_subtype p \<in> listed_types) (cl_points c)
      \<and> naive_stamps (cl_points c) \<longrightarrow>
      (\<exists>h. hotspot_of now cfg c = Inr h
         \<and> hs_risk_score h = py_round2 (hotspot_score_formula listed_type_weight now (cl_points c))))
   \<and> sorted_wrt (\<lambda>a b. hs_risk_score b \<le> hs_risk_score a)
        (identify_hotspots now geodesic cfg incidents panic_alerts)
   \<and> length (identify_hotspots now geodesic cfg incidents panic_alerts) \<le> 10
   \<and> (\<forall>h \<in> set (identify_hotspots now geodesic cfg incidents panic_alerts).
        \<exists>c \<in> set (cluster_points geodesic cfg
                     (incident_points now incidents @ alert_points now panic_alerts)
                     (HOTSPOT_RADIUS cfg)).
          hotspot_of now cfg c = Inr h)
   \<and> (MIN_INCIDENTS_FOR_HOTSPOT cfg
         \<le> int (length (incident_points now incidents @ alert_points now panic_alerts))
       \<and> naive_stamps (incident_points now incidents @ alert_points now panic_alerts) \<longrightarrow>
        (\<exists>hs. list_all2 (\<lambda>c h. hotspot_of now cfg c = Inr h)
                 (cluster_points geodesic cfg
                    (incident_points now incidents @ alert_points now panic_alerts)
                    (HOTSPOT_RADIUS cfg)) hs
           \<and> identify_hotspots now geodesic cfg incidents panic_alerts
               = take 10 (sort_key (\<lambda>h. - hs_risk_score h) hs)))"
proof -
  have score: "\<exists>h. hotspot_of now cfg c = Inr h
         \<and> hs_risk_score h = py_round2 (hotspot_score_formula listed_type_weight now (cl_points c))"
    if ne: "cl_points c \<noteq> []" and listed: "list_all (\<lambda>p. hp_subtype p \<in> listed_types) (cl_points c)"
      and naive: "naive_stamps (cl_points c)"
    using hotspot_of_score [OF ne naive, of now cfg] final_score_formula [OF listed naive ne, of now]
    by auto
  have determined: "\<exists>hs. list_all2 (\<lambda>c h. hotspot_of now cfg c = Inr h)
                 (cluster_points geodesic cfg
                    (incident_points now incidents @ alert_points now panic_alerts)
                    (HOTSPOT_RADIUS cfg)) hs
           \<and> identify_hotspots now geodesic cfg incidents panic_alerts
               = take 10 (sort_key (\<lambda>h. - hs_risk_score h) hs)"
    if "MIN_INCIDENTS_FOR_HOTSPOT cfg
         \<le> int (length (incident_points now incidents @ alert_points now panic_alerts))"
      and "naive_stamps (incident_points now incidents @ alert_points now panic_alerts)"
    using that by (rule identify_hotspots_determined)
  from score determined identify_hotspots_ranked [of now geodesic cfg incidents panic_alerts]
  show ?thesis by blast
qed

theorem C5_hotspot_score_and_ranking_witness:
  "map_sum id hs_risk_score (hotspot_of 5184000 default_config aged_cluster) = Inr 8
   \<and> (\<exists>hs. list_all2 (\<lambda>c h. hotspot_of 0 default_config c = Inr h)
              (cluster_points lat_geodesic default_config
                 (incident_points 0 ten_incidents @ alert_points 0 []) (HOTSPOT_RADIUS default_config)) hs
         \<and> identify_hotspots 0 lat_geodesic default_config ten_incidents []
             = take 10 (sort_key (\<lambda>h. - hs_risk_score h) hs)
         \<and> map hs_risk_score (identify_hotspots 0 lat_geodesic default_config ten_incidents [])
             = [45, 20])
   \<and> (\<exists>h c. h \<in> set (identify_hotspots 0 lat_geodesic default_config ten_incidents [])
        \<and> c \<in> set (cluster_points lat_geodesic default_config
                (incident_points 0 ten_incidents @ alert_points 0 []) (HOTSPOT_RADIUS default_config))
        \<and> hotspot_of 0 default_config c = Inr h)"
proof -
  have pts: "cl_points aged_cluster =
      [example_hot_point 28 ''crime'' ''high'' 5184000,
       example_hot_point 28 ''medical'' ''medium'' 3888000,
       example_hot_point 28 ''fire'' ''low'' 0]"
    by (simp add: aged_cluster_def)
  have ne: "cl_points aged_cluster \<noteq> []" by (simp add: pts)
  have listed: "list_all (\<lambda>p. hp_subtype p \<in> listed_types) (cl_points aged_cluster)"
    by (simp add: pts listed_types_def example_hot_point_def)
  have naive: "naive_stamps (cl_points aged_cluster)"
    by (simp add: pts naive_stamps_def naive_instant_def example_hot_point_def)
  have decay: "time_decay 5184000 (example_hot_point 28 ''crime'' ''high'' 5184000) = 1"
    "time_decay 5184000 (example_hot_point 28 ''medical'' ''medium'' 3888000) = 1 / 2"
    "time_decay 5184000 (example_hot_point 28 ''fire'' ''low'' 0) = 1 / 10"
    by (simp_all add: time_decay_def naive_instant_def example_hot_point_def seconds_per_day_def)
  have weights: "sum_list (map (\<lambda>p. hotspot_severity_weight (hp_severity p)
        * listed_type_weight (hp_subtype p)) (cl_points aged_cluster)) = 15"
    by (simp add: pts listed_type_weight_def hotspot_severity_weight_def example_hot_point_def)
  have decays: "sum_list (map (time_decay 5184000) (cl_points aged_cluster)) = 16 / 10"
    by (simp add: pts decay)
  have f: "hotspot_score_formula listed_type_weight 5184000 (cl_points aged_cluster) = 8"
    unfolding hotspot_score_formula_def weights decays by (simp add: pts)
  have r: "py_round2 8 = 8" by (simp add: py_round2_def py_round_def Let_def)
  from ne listed naive
  have "cl_points aged_cluster \<noteq> [] \<and> list_all (\<lambda>p. hp_subtype p \<in> listed_types) (cl_points aged_cluster)
      \<and> naive_stamps (cl_points aged_cluster)" by simp
  with C5_hotspot_score_and_ranking [of aged_cluster 5184000 default_config, THEN conjunct1]
  have "\<exists>h. hotspot_of 5184000 default_config aged_cluster = Inr h
         \<and> hs_risk_score h
           = py_round2 (hotspot_score_formula listed_type_weight 5184000 (cl_points aged_cluster))"
    by (rule mp)
  then obtain h where "hotspot_of 5184000 default_config aged_cluster = Inr h"
    and "hs_risk_score h
       = py_round2 (hotspot_score_formula listed_type_weight 5184000 (cl_points aged_cluster))"
    by (elim exE conjE)
  then have 1: "map_sum id hs_risk_score (hotspot_of 5184000 default_config aged_cluster) = Inr 8"
    by (simp add: f r)
  let ?pts = "incident_points 0 ten_incidents @ alert_points 0 []"
  have enough: "MIN_INCIDENTS_FOR_HOTSPOT default_config \<le> int (length ?pts)"
    by (simp add: ten_incidents_def medical_incident_def crime_incident_def default_config_def)
  have naive10: "naive_stamps ?pts"
    by (simp add: ten_incidents_def medical_incident_def crime_incident_def naive_stamps_def
        naive_instant_def field_get_def)
  note ranking = C5_hotspot_score_and_ranking
    [of aged_cluster 0 default_config lat_geodesic ten_incidents "[]", THEN conjunct2]
  from enough naive10
  have "MIN_INCIDENTS_FOR_HOTSPOT default_config \<le> int (length ?pts) \<and> naive_stamps ?pts"
    by (rule conjI)
  with ranking [THEN conjunct2, THEN conjunct2, THEN conjunct2]
  have "\<exists>hs. list_all2 (\<lambda>c h. hotspot_of 0 default_config c = Inr h)
              (cluster_points lat_geodesic default_config ?pts (HOTSPOT_RADIUS default_config)) hs
         \<and> identify_hotspots 0 lat_geodesic default_config ten_incidents []
             = take 10 (sort_key (\<lambda>h. - hs_risk_score h) hs)"
    by (rule mp)
  then obtain hs where l: "list_all2 (\<lambda>c h. hotspot_of 0 default_config c = Inr h)
              (cluster_points lat_geodesic default_config ?pts (HOTSPOT_RADIUS default_config)) hs"
    and i: "identify_hotspots 0 lat_geodesic default_config ten_incidents []
             = take 10 (sort_key (\<lambda>h. - hs_risk_score h) hs)"
    by (elim exE conjE)
  have 2: "\<exists>hs. list_all2 (\<lambda>c h. hotspot_of 0 default_config c = Inr h)
              (cluster_points lat_geodesic default_config ?pts (HOTSPOT_RADIUS default_config)) hs
         \<and> identify_hotspots 0 lat_geodesic default_config ten_incidents []
             = take 10 (sort_key (\<lambda>h. - hs_risk_score h) hs)
         \<and> map hs_risk_score (identify_hotspots 0 lat_geodesic default_config ten_incidents [])
             = [45, 20]"
    by (rule exI [of _ hs]) (intro conjI l i ten_incidents_hotspots)
  from ten_incidents_hotspots
  obtain h' where h': "h' \<in> set (identify_hotspots 0 lat_geodesic default_config ten_incidents [])"
    by (cases "identify_hotspots 0 lat_geodesic default_config ten_incidents []") auto
  with ranking [THEN conjunct2, THEN conjunct2, THEN conjunct1]
  have "\<exists>c \<in> set (cluster_points lat_geodesic default_config ?pts (HOTSPOT_RADIUS default_config)).
      hotspot_of 0 default_config c = Inr h'"
    by (rule bspec)
  then obtain c where c: "c \<in> set (cluster_points lat_geodesic default_config ?pts (HOTSPOT_RADIUS default_config))"
    and hc: "hotspot_of 0 default_config c = Inr h'"
    by (elim bexE)
  have 3: "\<exists>h c. h \<in> set (identify_hotspots 0 lat_geodesic default_config ten_incidents [])
        \<and> c \<in> set (cluster_points lat_geodesic default_config ?pts (HOTSPOT_RADIUS default_config))
        \<and> hotspot_of 0 default_config c = Inr h"
    by (rule exI [of _ h'], rule exI [of _ c]) (intro conjI h' c hc)
  from 1 2 3 show ?thesis by (intro conjI)
qed

text \<open>
  The claim as worded fails on the weight of medical incidents: five medical incidents of
  medium severity and age 0 at one place form one hotspot of score 5 * 2 * 2 = 20, where the
  claimed table gives 5 * 2 * 1.5 = 15; a cluster of one such incident scores 4, not 3.
\<close>

theorem C5_medical_weight_counterexample:
  "map hs_risk_score (identify_hotspots 0 lat_geodesic default_config
      [medical_incident, medical_incident, medical_incident, medical_incident, medical_incident] [])
     = [20]
   \<and> hotspot_score_formula claimed_type_weight 0
        (incident_points 0
          [medical_incident, medical_incident, medical_incident, medical_incident, medical_incident])
     = 15
   \<and> map_sum id hs_risk_score (hotspot_of 0 default_config medical_cluster) = Inr 4
   \<and> hotspot_score_formula claimed_type_weight 0 (cl_points medical_cluster) = 3"
proof -
  define p where "p = \<lparr> hp_lat = 28.6139, hp_lng = 77.2090, hp_type = ''incident'',
     hp_subtype = ''medical'', hp_severity = ''medium'', hp_timestamp = Instant 0 \<rparr>"
  have pts: "incident_points 0
      [medical_incident, medical_incident, medical_incident, medical_incident, medical_incident]
      = [p, p, p, p, p]"
    by (simp add: medical_incident_def field_get_def p_def)
  have tw: "time_weight 0 p = Inr 1"
    by (simp add: time_weight_def parse_timestamp_def dt_diff_def p_def seconds_per_day_def)
  have rc: "is_recent 0 (hp_timestamp p) 7 = Inr True"
    by (simp add: is_recent_def parse_timestamp_def p_def seconds_per_day_def)
  have sc: "add_point_score n p = n + 4" for n
    by (simp add: add_point_score_def p_def severity_weights_def type_weights_def dict_get_def)
  have td: "time_decay 0 p = 1"
    by (simp add: time_decay_def naive_instant_def p_def seconds_per_day_def)
  have r: "py_round2 4 = 4" by (simp add: py_round2_def py_round_def Let_def)
  have 2: "hotspot_score_formula claimed_type_weight 0 [p, p, p, p, p] = 15"
    by (simp add: hotspot_score_formula_def td)
      (simp add: claimed_type_weight_def hotspot_severity_weight_def p_def)
  have mp: "cl_points medical_cluster = [p]"
    by (simp add: medical_cluster_def medical_incident_def field_get_def p_def)
  have bd: "foldl (\<lambda>d point. count_subtype (hp_subtype point) d) [] [p] = [(''medical'', 1)]"
    by (simp add: p_def)
  have 3: "map_sum id hs_risk_score (hotspot_of 0 default_config medical_cluster) = Inr 4"
    by (simp add: hotspot_of_def final_score_def mp tw sc np_mean_def r rc bd Let_def)
  have 4: "hotspot_score_formula claimed_type_weight 0 (cl_points medical_cluster) = 3"
    unfolding mp
    by (simp add: hotspot_score_formula_def td)
      (simp add: claimed_type_weight_def hotspot_severity_weight_def p_def)
  from five_medical_incidents_hotspot 2 [folded pts] 3 4 show ?thesis by (intro conjI)
qed

section \<open>Verification: trend direction\<close>

text \<open>
  \<open>_calculate_trend_direction\<close> splits the sorted events at the middle index, not the
  time range at its middle: its result depends on the number of events only, and is never
  \<open>decreasing\<close>.
\<close>

lemma trend_by_count:
  "calculate_trend_direction events total_days =
     (if length events < 4 \<or> total_days < 7 then ''insufficient_data''
      else if real (length events - length events div 2) / real (length events div 2) > 1.2
      then ''increasing'' else ''stable'')"
proof (cases "length events < 4 \<or> total_days < 7")
  case True
  then show ?thesis by (simp add: calculate_trend_direction_def)
next
  case False
  define n where "n = length events"
  define d where "d = real_of_int total_days / 2"
  from False have n4: "4 \<le> n" and d0: "0 < d" by (simp_all add: n_def d_def)
  have h: "0 < n div 2" "n div 2 \<le> n - n div 2" using n4 by simp_all
  have first: "0 < real (n div 2) / d" using h d0 by simp
  have ratio: "(real (n - n div 2) / d) / (real (n div 2) / d) = real (n - n div 2) / real (n div 2)"
    using d0 by simp
  have len_take: "length (take (n div 2) (sort_key ev_timestamp events)) = n div 2"
    and len_drop: "length (drop (n div 2) (sort_key ev_timestamp events)) = n - n div 2"
    by (simp_all add: n_def)
  define q where "q = real (n - n div 2) / real (n div 2)"
  have ge1: "1 \<le> q" using h by (simp add: q_def)
  then have nd: "\<not> q < 0.8" by linarith
  have "calculate_trend_direction events total_days =
      (if q > 1.2 then ''increasing'' else if q < 0.8 then ''decreasing'' else ''stable'')"
    unfolding calculate_trend_direction_def Let_def length_sort n_def [symmetric] len_take len_drop
      d_def [symmetric] ratio q_def [symmetric]
    using False first by (simp add: n_def)
  with nd False show ?thesis by (simp add: q_def n_def)
qed

lemma trend_never_decreasing: "calculate_trend_direction events total_days \<noteq> ''decreasing''"
  by (simp add: trend_by_count)

text \<open>
  Claim C3 on the claim's own example: ten events in a window of ten days, three in the
  first half of the window and seven in the second. The rates of the two halves of the time
  range give \<open>increasing\<close>; the code returns \<open>stable\<close>.
\<close>

theorem C3_trend_splits_events_by_count:
  "length example_events = 10
   \<and> length (filter (\<lambda>e. ev_timestamp e < 5 * seconds_per_day) example_events) = 3
   \<and> length (filter (\<lambda>e. 5 * seconds_per_day \<le> ev_timestamp e) example_events) = 7
   \<and> spec_trend_direction 0 (10 * seconds_per_day) example_events = ''increasing''
   \<and> calculate_trend_direction example_events 10 = ''stable''"
proof -
  have len: "length example_events = 10" by (simp add: example_events_def)
  have f: "filter (\<lambda>e. ev_timestamp e < 5 * seconds_per_day) example_events
      = map example_event [0, 2, 4]"
    by (simp add: example_events_def example_event_def seconds_per_day_def)
  have s: "filter (\<lambda>e. 5 * seconds_per_day \<le> ev_timestamp e) example_events
      = map example_event [5, 5, 6, 7, 8, 9, 9]"
    by (simp add: example_events_def example_event_def seconds_per_day_def)
  have mid: "(0::int) + (10 * seconds_per_day - 0) div 2 = 5 * seconds_per_day"
    by (simp add: seconds_per_day_def)
  have days: "(10 * seconds_per_day - 0) div seconds_per_day = 10"
    by (simp add: seconds_per_day_def)
  have spec: "spec_trend_direction 0 (10 * seconds_per_day) example_events = ''increasing''"
    unfolding spec_trend_direction_def Let_def mid days f s using len by simp
  have code: "calculate_trend_direction example_events 10 = ''stable''"
    by (simp add: trend_by_count len)
  from len f s spec code show ?thesis by simp
qed

end
